theory Spec2Isabelle
  imports Complex_Main "HOL-Library.Sublist"
begin

section \<open>Task lifecycle (agentweave/comms/a2a/task.py)\<close>

text \<open>
  Python values that the code treats as opaque (payloads, results, messages, artifacts,
  metadata) are a type parameter \<open>'v\<close>. Timestamps (\<open>datetime.now(timezone.utc)\<close>) are
  real numbers; the instant read by a call is passed to it as \<open>now\<close>.
\<close>

datatype TaskState = PENDING | RUNNING | COMPLETED | FAILED | CANCELLED

text \<open>\<open>TaskState.is_terminal\<close>: membership in (COMPLETED, FAILED, CANCELLED).\<close>

fun is_terminal :: "TaskState \<Rightarrow> bool" where
  "is_terminal COMPLETED = True"
| "is_terminal FAILED = True"
| "is_terminal CANCELLED = True"
| "is_terminal PENDING = False"
| "is_terminal RUNNING = False"


record 'v Task =
  task_id :: string
  task_type :: string
  state :: TaskState
  payload :: 'v
  messages :: "'v list"
  result :: "'v option"
  artifacts :: "'v list"
  error :: "string option"
  created_at :: real
  updated_at :: real
  metadata :: 'v

text \<open>
  \<open>Task.update_state(new_state, error=None)\<close>: assigns the state and the timestamp
  unconditionally; \<open>if error:\<close> is Python truthiness, false for \<open>None\<close> and for the
  empty string.
\<close>

definition update_state :: "'v Task \<Rightarrow> TaskState \<Rightarrow> string option \<Rightarrow> real \<Rightarrow> 'v Task" where
  "update_state t new_state err now =
     (let t1 = t\<lparr>state := new_state, updated_at := now\<rparr>
      in case err of
           None \<Rightarrow> t1
         | Some e \<Rightarrow> if e = [] then t1 else t1\<lparr>error := Some e\<rparr>)"



text \<open>
  \<open>TaskManager\<close>: the task table, the keys of the lock table (a \<open>defaultdict\<close>: reading
  \<open>_task_locks[task_id]\<close> creates the entry) and the completion events with their flag.
\<close>

record 'v TaskManager =
  tasks :: "string \<rightharpoonup> 'v Task"
  task_locks :: "string set"
  task_events :: "string \<rightharpoonup> bool"

definition get_task :: "'v TaskManager \<Rightarrow> string \<Rightarrow> 'v Task option" where
  "get_task m tid = tasks m tid"

text \<open>
  \<open>TaskManager.update_task(task_id, state=None, result=None, error=None)\<close>. A missing
  task returns \<open>None\<close>. Otherwise, under the task's lock: \<open>if state:\<close> calls
  \<open>update_state\<close> (every enum member is a non-empty string, hence truthy);
  \<open>if result is not None\<close> stores the result; the event is set when the task is then
  terminal. The source has no other branch: the current state is never inspected before
  the assignment.
\<close>

definition update_task ::
  "'v TaskManager \<Rightarrow> string \<Rightarrow> TaskState option \<Rightarrow> 'v option \<Rightarrow> string option \<Rightarrow> real
     \<Rightarrow> 'v Task option \<times> 'v TaskManager" where
  "update_task m tid st res err now =
     (case tasks m tid of
        None \<Rightarrow> (None, m)
      | Some t \<Rightarrow>
          (let t1 = (case st of None \<Rightarrow> t | Some s \<Rightarrow> update_state t s err now);
               t2 = (case res of None \<Rightarrow> t1 | Some r \<Rightarrow> t1\<lparr>result := Some r\<rparr>);
               ev = (if is_terminal (state t2) \<and> tid \<in> dom (task_events m)
                     then (task_events m)(tid \<mapsto> True) else task_events m)
           in (Some t2, m\<lparr>tasks := (tasks m)(tid \<mapsto> t2),
                           task_locks := insert tid (task_locks m),
                           task_events := ev\<rparr>)))"

section \<open>JSON-RPC task.cancel (agentweave/comms/a2a/server.py)\<close>



text \<open>
  Concrete managers used to evaluate the operations: one holding a completed task with
  a result, one holding a failed task with its error, one holding a task that was
  cancelled while its handler was still running.
\<close>

definition done_task :: "nat Task" where
  "done_task = \<lparr>task_id = ''t1'', task_type = ''search'', state = COMPLETED, payload = 0,
     messages = [], result = Some 41, artifacts = [], error = None,
     created_at = 1, updated_at = 2, metadata = 0\<rparr>"

definition done_manager :: "nat TaskManager" where
  "done_manager = \<lparr>tasks = [''t1'' \<mapsto> done_task], task_locks = {''t1''},
     task_events = [''t1'' \<mapsto> True]\<rparr>"

definition cancelled_task :: "nat Task" where
  "cancelled_task = \<lparr>task_id = ''t2'', task_type = ''index'', state = CANCELLED, payload = 0,
     messages = [], result = None, artifacts = [], error = None,
     created_at = 1, updated_at = 3, metadata = 0\<rparr>"



definition cancelled_manager :: "nat TaskManager" where
  "cancelled_manager = \<lparr>tasks = [''t2'' \<mapsto> cancelled_task], task_locks = {''t2''},
     task_events = [''t2'' \<mapsto> True]\<rparr>"

section \<open>Configuration validation (agentweave/config.py)\<close>

datatype Environment = DEVELOPMENT | STAGING | PRODUCTION

datatype AuthorizationProvider = OPA | ALLOW_ALL

datatype DefaultAction = DENY | DefaultAction_LOG_ONLY

text \<open>
  \<open>PeerVerification\<close> has exactly the members STRICT and LOG_ONLY (source comment:
  "cannot be 'none'").
\<close>

datatype PeerVerification = STRICT | PeerVerification_LOG_ONLY

text \<open>
  Lookup of an enum member by its string value, which is how the field of a pydantic
  model accepts a raw value; every other string is a validation error.
\<close>

definition Environment_of_value :: "string \<Rightarrow> Environment option" where
  "Environment_of_value v =
     (if v = ''development'' then Some DEVELOPMENT
      else if v = ''staging'' then Some STAGING
      else if v = ''production'' then Some PRODUCTION else None)"

definition AuthorizationProvider_of_value :: "string \<Rightarrow> AuthorizationProvider option" where
  "AuthorizationProvider_of_value v =
     (if v = ''opa'' then Some OPA else if v = ''allow-all'' then Some ALLOW_ALL else None)"

definition DefaultAction_of_value :: "string \<Rightarrow> DefaultAction option" where
  "DefaultAction_of_value v =
     (if v = ''deny'' then Some DENY
      else if v = ''log-only'' then Some DefaultAction_LOG_ONLY else None)"

definition PeerVerification_of_value :: "string \<Rightarrow> PeerVerification option" where
  "PeerVerification_of_value v =
     (if v = ''strict'' then Some STRICT
      else if v = ''log-only'' then Some PeerVerification_LOG_ONLY else None)"

record AgentSettings =
  environment :: Environment
  trust_domain :: string

record IdentityConfig =
  allowed_trust_domains :: "string list"

record AuditConfig =
  enabled :: bool

record AuthorizationConfig =
  provider :: AuthorizationProvider
  default_action :: DefaultAction
  audit :: AuditConfig

record TransportConfig =
  tls_min_version :: string
  peer_verification :: PeerVerification

record AgentConfig =
  agent :: AgentSettings
  identity :: IdentityConfig
  authorization :: AuthorizationConfig
  transport :: TransportConfig

text \<open>
  A failed construction: a pydantic \<open>ValidationError\<close> of a field, or the
  \<open>ConfigurationError\<close> of a security rule. Both carry the name of the option at
  fault (the source's messages start with it).
\<close>

datatype config_error = ValidationError string | ConfigurationError string

definition is_production :: "AgentConfig \<Rightarrow> bool" where
  "is_production c = (environment (agent c) = PRODUCTION)"

text \<open>
  \<open>AgentConfig.validate_security\<close>: rules 1 to 5 in the source's order, each raising
  \<open>ConfigurationError\<close>; rule 6 is a branch whose body is \<open>pass\<close>.
\<close>

definition validate_security :: "AgentConfig \<Rightarrow> config_error + AgentConfig" where
  "validate_security c =
     (if is_production c \<and> default_action (authorization c) \<noteq> DENY then
        Inl (ConfigurationError ''authorization.default_action'')
      else if is_production c \<and> provider (authorization c) = ALLOW_ALL then
        Inl (ConfigurationError ''authorization.provider'')
      else if is_production c \<and> peer_verification (transport c) \<noteq> STRICT then
        Inl (ConfigurationError ''transport.peer_verification'')
      else if tls_min_version (transport c) \<notin> {''1.2'', ''1.3''} then
        Inl (ConfigurationError ''transport.tls_min_version'')
      else if is_production c \<and> \<not> enabled (audit (authorization c)) then
        Inl (ConfigurationError ''authorization.audit.enabled'')
      else Inr c)"

text \<open>
  The raw configuration as it is handed to \<open>AgentConfig(**data)\<close>: the options the
  security rules read. An absent option (\<open>None\<close>) takes the default of its \<open>Field\<close>.
\<close>

record RawConfig =
  raw_environment :: "string option"
  raw_trust_domain :: string
  raw_allowed_trust_domains :: "string list"
  raw_provider :: "string option"
  raw_default_action :: "string option"
  raw_audit_enabled :: "bool option"
  raw_tls_min_version :: "string option"
  raw_peer_verification :: "string option"

text \<open>One enum field: the default when absent, the member of that value otherwise.\<close>

definition enum_field :: "string \<Rightarrow> (string \<Rightarrow> 'a option) \<Rightarrow> 'a \<Rightarrow> string option
    \<Rightarrow> config_error + 'a" where
  "enum_field name of_value dflt raw =
     (case raw of
        None \<Rightarrow> Inr dflt
      | Some v \<Rightarrow> (case of_value v of
                    None \<Rightarrow> Inl (ValidationError name)
                  | Some x \<Rightarrow> Inr x))"

text \<open>
  Construction of an \<open>AgentConfig\<close>: the fields are validated first (enum members; the
  \<open>Literal["1.2", "1.3"]\<close> of the TLS version), then the model validator
  \<open>validate_security\<close> runs on the built object. The field validators this section
  does not model (names, endpoints, ports, the trust-domain pattern) only add failures;
  their joint outcome is the argument \<open>other_fields_ok\<close>.
\<close>

definition AgentConfig_validate :: "bool \<Rightarrow> RawConfig \<Rightarrow> config_error + AgentConfig" where
  "AgentConfig_validate other_fields_ok raw =
     (if \<not> other_fields_ok then Inl (ValidationError ''field'')
      else
      case enum_field ''agent.environment'' Environment_of_value PRODUCTION
             (raw_environment raw) of
        Inl e \<Rightarrow> Inl e
      | Inr env \<Rightarrow>
      (case enum_field ''authorization.provider'' AuthorizationProvider_of_value OPA
              (raw_provider raw) of
        Inl e \<Rightarrow> Inl e
      | Inr prov \<Rightarrow>
      (case enum_field ''authorization.default_action'' DefaultAction_of_value DENY
              (raw_default_action raw) of
        Inl e \<Rightarrow> Inl e
      | Inr act \<Rightarrow>
      (case enum_field ''transport.peer_verification'' PeerVerification_of_value STRICT
              (raw_peer_verification raw) of
        Inl e \<Rightarrow> Inl e
      | Inr pv \<Rightarrow>
      (let tls = (case raw_tls_min_version raw of None \<Rightarrow> ''1.3'' | Some v \<Rightarrow> v) in
       if tls \<notin> {''1.2'', ''1.3''} then Inl (ValidationError ''transport.tls_min_version'')
       else validate_security
         \<lparr>agent = \<lparr>environment = env, trust_domain = raw_trust_domain raw\<rparr>,
          identity = \<lparr>allowed_trust_domains = raw_allowed_trust_domains raw\<rparr>,
          authorization = \<lparr>provider = prov, default_action = act,
            audit = \<lparr>enabled = (case raw_audit_enabled raw of None \<Rightarrow> True | Some b \<Rightarrow> b)\<rparr>\<rparr>,
          transport = \<lparr>tls_min_version = tls, peer_verification = pv\<rparr>\<rparr>)))))"

text \<open>A production configuration that passes, used to evaluate the validator.\<close>

definition production_raw :: RawConfig where
  "production_raw = \<lparr>raw_environment = Some ''production'',
     raw_trust_domain = ''agentweave.io'', raw_allowed_trust_domains = [],
     raw_provider = Some ''opa'', raw_default_action = Some ''deny'',
     raw_audit_enabled = Some True, raw_tls_min_version = Some ''1.3'',
     raw_peer_verification = Some ''strict''\<rparr>"

section \<open>Python exceptions and callables\<close>

text \<open>
  An exception is its class with the classes it inherits from (the names in its
  \<open>__mro__\<close>) and its message \<open>str(e)\<close>. \<open>isinstance(e, classes)\<close> holds when one of
  the classes is among them; with an empty tuple it is false. \<open>except Exception\<close>
  catches exactly the instances of \<open>Exception\<close> (not \<open>asyncio.CancelledError\<close>,
  \<open>KeyboardInterrupt\<close>).
\<close>

datatype py_exn = Exn (exn_mro: "string list") (exn_str: string)

definition isinstance :: "py_exn \<Rightarrow> string list \<Rightarrow> bool" where
  "isinstance e classes = list_ex (\<lambda>c. c \<in> set (exn_mro e)) classes"

definition is_Exception :: "py_exn \<Rightarrow> bool" where
  "is_Exception e = isinstance e [''Exception'']"

text \<open>
  What a call of an awaited function does: it returns a value or raises. The function
  acts on the world outside the program (type \<open>'w\<close>: the network, the peer, the clock),
  so a wrapped function is a map from the world to its outcome and the world after it.
  A function that was not invoked leaves the world as it is.
\<close>

datatype 'a outcome = Returns 'a | Raises py_exn

type_synonym ('a, 'w) callable = "'w \<Rightarrow> 'a outcome \<times> 'w"

section \<open>Circuit breaker (agentweave/transport/circuit.py)\<close>

datatype CircuitState = CLOSED | OPEN | HALF_OPEN

record CircuitBreakerConfig =
  failure_threshold :: int
  success_threshold :: int
  timeout :: real
  excluded_exceptions :: "string list"

text \<open>\<open>CircuitBreakerConfig.__post_init__\<close>: the three checks that raise \<open>ValueError\<close>.\<close>

definition CircuitBreakerConfig_post_init :: "CircuitBreakerConfig \<Rightarrow> string + unit" where
  "CircuitBreakerConfig_post_init cfg =
     (if failure_threshold cfg \<le> 0 then Inl ''failure_threshold must be positive''
      else if success_threshold cfg \<le> 0 then Inl ''success_threshold must be positive''
      else if timeout cfg \<le> 0 then Inl ''timeout must be positive''
      else Inr ())"

record CircuitBreakerMetrics =
  circuit_state :: CircuitState
  failure_count :: int
  success_count :: int
  total_calls :: int
  total_failures :: int
  total_successes :: int
  total_rejected :: int
  last_failure_time :: "real option"
  last_state_change :: real

text \<open>A new breaker: \<open>CircuitBreakerMetrics()\<close> created at the instant \<open>now\<close>.\<close>

definition CircuitBreakerMetrics_init :: "real \<Rightarrow> CircuitBreakerMetrics" where
  "CircuitBreakerMetrics_init now = \<lparr>circuit_state = CLOSED, failure_count = 0,
     success_count = 0, total_calls = 0, total_failures = 0, total_successes = 0,
     total_rejected = 0, last_failure_time = None, last_state_change = now\<rparr>"

text \<open>\<open>_should_attempt_reset\<close>, with \<open>time.time()\<close> passed as \<open>now\<close>.\<close>

definition should_attempt_reset :: "CircuitBreakerConfig \<Rightarrow> CircuitBreakerMetrics \<Rightarrow> real \<Rightarrow> bool" where
  "should_attempt_reset cfg m now =
     (case last_failure_time m of
        None \<Rightarrow> False
      | Some t \<Rightarrow> now - t \<ge> timeout cfg)"

definition transition_state :: "CircuitBreakerMetrics \<Rightarrow> CircuitState \<Rightarrow> real \<Rightarrow> CircuitBreakerMetrics" where
  "transition_state m new_state now =
     (if circuit_state m = new_state then m
      else
        (let m1 = m\<lparr>circuit_state := new_state, last_state_change := now\<rparr>
         in if new_state = CLOSED then m1\<lparr>failure_count := 0, success_count := 0\<rparr>
            else if new_state = HALF_OPEN then m1\<lparr>success_count := 0\<rparr>
            else m1))"

definition record_success :: "CircuitBreakerConfig \<Rightarrow> CircuitBreakerMetrics \<Rightarrow> real \<Rightarrow> CircuitBreakerMetrics" where
  "record_success cfg m now =
     (let m1 = m\<lparr>total_calls := total_calls m + 1, total_successes := total_successes m + 1\<rparr>
      in if circuit_state m1 = HALF_OPEN then
           (let m2 = m1\<lparr>success_count := success_count m1 + 1\<rparr>
            in if success_count m2 \<ge> success_threshold cfg
               then transition_state m2 CLOSED now else m2)
         else if circuit_state m1 = CLOSED then m1\<lparr>failure_count := 0\<rparr>
         else m1)"

definition record_failure ::
  "CircuitBreakerConfig \<Rightarrow> CircuitBreakerMetrics \<Rightarrow> py_exn \<Rightarrow> real \<Rightarrow> CircuitBreakerMetrics" where
  "record_failure cfg m e now =
     (if isinstance e (excluded_exceptions cfg) then m
      else
        (let m1 = m\<lparr>total_calls := total_calls m + 1,
                     total_failures := total_failures m + 1,
                     failure_count := failure_count m + 1,
                     last_failure_time := Some now\<rparr>
         in if circuit_state m1 = HALF_OPEN then transition_state m1 OPEN now
            else if circuit_state m1 = CLOSED then
              (if failure_count m1 \<ge> failure_threshold cfg
               then transition_state m1 OPEN now else m1)
            else m1))"

text \<open>
  The first block of \<open>CircuitBreaker.call\<close>: an OPEN breaker whose timeout has elapsed
  (tested, and tested again under the lock) goes to HALF_OPEN.
\<close>

definition attempt_reset :: "CircuitBreakerConfig \<Rightarrow> CircuitBreakerMetrics \<Rightarrow> real \<Rightarrow> CircuitBreakerMetrics" where
  "attempt_reset cfg m now =
     (if circuit_state m = OPEN then
        (if should_attempt_reset cfg m now then
           (if should_attempt_reset cfg m now then transition_state m HALF_OPEN now else m)
         else m)
      else m)"

text \<open>\<open>CircuitOpenError(target, metrics)\<close>; the message is abbreviated to its fixed part.\<close>

definition CircuitOpenError :: py_exn where
  "CircuitOpenError = Exn [''CircuitOpenError'', ''Exception'', ''BaseException'']
     ''Circuit breaker is OPEN''"

text \<open>
  \<open>CircuitBreaker.call(func)\<close>. \<open>time.time()\<close> is a reading \<open>clock w\<close> of the world: the
  readings before \<open>func\<close> see the world at entry, the reading in \<open>_record_failure\<close> and
  \<open>_transition_state\<close> after \<open>func\<close> sees the world \<open>func\<close> left. A breaker still OPEN
  counts the rejection and raises without touching \<open>func\<close>. An exception that
  \<open>except Exception\<close> does not catch propagates unrecorded.
\<close>

definition call ::
  "CircuitBreakerConfig \<Rightarrow> ('w \<Rightarrow> real) \<Rightarrow> CircuitBreakerMetrics \<Rightarrow> ('a, 'w) callable \<Rightarrow> 'w
     \<Rightarrow> (py_exn + 'a) \<times> CircuitBreakerMetrics \<times> 'w" where
  "call cfg clock m func w =
     (let m1 = attempt_reset cfg m (clock w)
      in if circuit_state m1 = OPEN then
           (Inl CircuitOpenError, m1\<lparr>total_rejected := total_rejected m1 + 1\<rparr>, w)
         else
           (case func w of
              (Returns r, w') \<Rightarrow> (Inr r, record_success cfg m1 (clock w'), w')
            | (Raises e, w') \<Rightarrow>
                if is_Exception e then (Inl e, record_failure cfg m1 e (clock w'), w')
                else (Inl e, m1, w')))"

text \<open>
  A run of calls, one wrapped function per call, each started in the world the previous
  one left: the metrics and the world after the run.
\<close>

fun calls ::
  "CircuitBreakerConfig \<Rightarrow> ('w \<Rightarrow> real) \<Rightarrow> CircuitBreakerMetrics \<Rightarrow> ('a, 'w) callable list \<Rightarrow> 'w
     \<Rightarrow> CircuitBreakerMetrics \<times> 'w" where
  "calls cfg clock m [] w = (m, w)"
| "calls cfg clock m (f # fs) w =
     (case call cfg clock m f w of (r, m', w') \<Rightarrow> calls cfg clock m' fs w')"

text \<open>
  A wrapped function fails with a counted failure in a world when it raises there an
  exception that \<open>except Exception\<close> catches and the configuration does not exclude.
\<close>

definition counted_failure :: "CircuitBreakerConfig \<Rightarrow> ('a, 'w) callable \<Rightarrow> 'w \<Rightarrow> bool" where
  "counted_failure cfg f w =
     (case fst (f w) of
        Returns r \<Rightarrow> False
      | Raises e \<Rightarrow> is_Exception e \<and> \<not> isinstance e (excluded_exceptions cfg))"

text \<open>Every function of a run fails with a counted failure in the world it starts in.\<close>

fun all_counted_failures :: "CircuitBreakerConfig \<Rightarrow> ('a, 'w) callable list \<Rightarrow> 'w \<Rightarrow> bool" where
  "all_counted_failures cfg [] w = True"
| "all_counted_failures cfg (f # fs) w =
     (counted_failure cfg f w \<and> all_counted_failures cfg fs (snd (f w)))"

section \<open>A simulated world\<close>

text \<open>
  A concrete world used to evaluate the models: its clock and the number of times the
  wrapped function has run. \<open>failing_request\<close> raises \<open>ConnectionError\<close> after one
  second, \<open>ok_request\<close> returns 200 after one second, \<open>denied_request\<close> raises a
  \<open>PermissionError\<close>.
\<close>

record sim_world =
  sim_time :: real
  sim_calls :: nat

definition ConnectionError :: py_exn where
  "ConnectionError = Exn [''ConnectionError'', ''OSError'', ''Exception'', ''BaseException'']
     ''connection refused''"

definition PermissionError :: "string \<Rightarrow> py_exn" where
  "PermissionError s = Exn [''PermissionError'', ''OSError'', ''Exception'', ''BaseException''] s"

definition failing_request :: "(nat, sim_world) callable" where
  "failing_request w =
     (Raises ConnectionError, w\<lparr>sim_time := sim_time w + 1, sim_calls := sim_calls w + 1\<rparr>)"

definition ok_request :: "(nat, sim_world) callable" where
  "ok_request w = (Returns 200, w\<lparr>sim_time := sim_time w + 1, sim_calls := sim_calls w + 1\<rparr>)"


definition breaker_config :: CircuitBreakerConfig where
  "breaker_config = \<lparr>failure_threshold = 2, success_threshold = 2, timeout = 30,
     excluded_exceptions = [''NotFoundError'']\<rparr>"

text \<open>
  The breaker of \<open>breaker_config\<close> after two failed requests that ended at instant 2.
\<close>

definition tripped_metrics :: CircuitBreakerMetrics where
  "tripped_metrics = \<lparr>circuit_state = OPEN, failure_count = 2, success_count = 0,
     total_calls = 2, total_failures = 2, total_successes = 0, total_rejected = 0,
     last_failure_time = Some 2, last_state_change = 2\<rparr>"

section \<open>Retry policy (agentweave/transport/retry.py)\<close>

record RetryConfig =
  max_retries :: int
  base_delay :: real
  max_delay :: real
  exponential_base :: real
  jitter :: bool
  retryable_exceptions :: "string list"


text \<open>
  \<open>random.uniform(a, b)\<close> is \<open>a + (b - a) * random()\<close> in the standard library; \<open>u\<close> is
  the value of that \<open>random()\<close>, a number in [0, 1).
\<close>

definition uniform :: "real \<Rightarrow> real \<Rightarrow> real \<Rightarrow> real" where
  "uniform a b u = a + (b - a) * u"

text \<open>
  The configuration's numbers are Python floats, read here as the real numbers they
  denote; rounding is not modelled, overflow of the power is. \<open>x ** n\<close> on a float \<open>x\<close>
  and an int \<open>n \<ge> 0\<close> raises \<open>OverflowError\<close> when the result is too large for a float:
  when the exact power, rounded to the nearest float, is beyond the largest one, that
  is from \<open>2^1024 - 2^970\<close> on. (The product with \<open>base_delay\<close> raises nothing: a
  product too large for a float is \<open>inf\<close>, which \<open>min\<close> replaces by \<open>max_delay\<close>, as the
  minimum over the reals does.)
\<close>

definition OverflowError :: py_exn where
  "OverflowError = Exn [''OverflowError'', ''ArithmeticError'', ''Exception'', ''BaseException'']
     ''(34, 'Numerical result out of range')''"

definition pow_overflows :: "real \<Rightarrow> nat \<Rightarrow> bool" where
  "pow_overflows x n = (\<bar>x ^ n\<bar> \<ge> 2 ^ 1024 - 2 ^ 970)"

definition float_pow :: "real \<Rightarrow> nat \<Rightarrow> py_exn + real" where
  "float_pow x n = (if pow_overflows x n then Inl OverflowError else Inr (x ^ n))"

text \<open>
  \<open>RetryPolicy._calculate_delay(attempt)\<close>: the exponential delay, capped at
  \<open>max_delay\<close>, then replaced by a random draw below it when jitter is on. The power is
  computed before the cap is applied, so its \<open>OverflowError\<close> is the outcome of the
  method.
\<close>

definition calculate_delay :: "RetryConfig \<Rightarrow> nat \<Rightarrow> real \<Rightarrow> py_exn + real" where
  "calculate_delay cfg attempt u =
     (case float_pow (exponential_base cfg) attempt of
        Inl e \<Rightarrow> Inl e
      | Inr pw \<Rightarrow>
          (let delay = base_delay cfg * pw;
               delay = min delay (max_delay cfg)
           in Inr (if jitter cfg then uniform 0 delay u else delay)))"

definition is_retryable :: "RetryConfig \<Rightarrow> py_exn \<Rightarrow> bool" where
  "is_retryable cfg e = isinstance e (retryable_exceptions cfg)"

text \<open>
  The state of a \<open>RetryPolicy\<close> object and what one \<open>execute\<close> leaves behind: the value
  returned or the exception raised, the world, the policy's counters and the delays
  given to \<open>asyncio.sleep\<close>, in order.
\<close>

record RetryPolicy =
  attempt_count :: int
  total_delay :: real

record ('a, 'w) execution =
  outcome_of :: "py_exn + 'a"
  world_after :: 'w
  policy_after :: RetryPolicy
  slept :: "real list"

definition RuntimeError :: "string \<Rightarrow> py_exn" where
  "RuntimeError s = Exn [''RuntimeError'', ''Exception'', ''BaseException''] s"

text \<open>
  The loop \<open>for attempt in range(max_retries + 1)\<close> of \<open>RetryPolicy.execute\<close>, with the
  number of iterations left as first recursion argument. \<open>draws n\<close> is the value of
  \<open>random()\<close> in the delay computed after attempt \<open>n\<close>. With no iteration left the code
  after the loop runs: it raises the last exception, or \<open>RuntimeError\<close> when there is
  none. The delay is computed inside the \<open>except\<close> block: an exception of
  \<open>_calculate_delay\<close> leaves \<open>execute\<close> there, before anything is added to the total
  delay and before any sleep.
\<close>

fun execute_loop ::
  "RetryConfig \<Rightarrow> (nat \<Rightarrow> real) \<Rightarrow> ('a, 'w) callable \<Rightarrow> nat \<Rightarrow> nat \<Rightarrow> 'w \<Rightarrow> RetryPolicy
     \<Rightarrow> real list \<Rightarrow> py_exn option \<Rightarrow> ('a, 'w) execution" where
  "execute_loop cfg draws func 0 attempt w p sl last_exception =
     \<lparr>outcome_of = (case last_exception of
                       Some e \<Rightarrow> Inl e
                     | None \<Rightarrow> Inl (RuntimeError ''Unexpected retry state'')),
      world_after = w, policy_after = p, slept = sl\<rparr>"
| "execute_loop cfg draws func (Suc left) attempt w p sl last_exception =
     (let p1 = p\<lparr>attempt_count := int attempt\<rparr> in
      case func w of
        (Returns r, w') \<Rightarrow>
          \<lparr>outcome_of = Inr r, world_after = w', policy_after = p1, slept = sl\<rparr>
      | (Raises e, w') \<Rightarrow>
          if \<not> is_Exception e then
            \<lparr>outcome_of = Inl e, world_after = w', policy_after = p1, slept = sl\<rparr>
          else if \<not> is_retryable cfg e then
            \<lparr>outcome_of = Inl e, world_after = w', policy_after = p1, slept = sl\<rparr>
          else if int attempt \<ge> max_retries cfg then
            \<lparr>outcome_of = Inl e, world_after = w', policy_after = p1, slept = sl\<rparr>
          else
            (case calculate_delay cfg attempt (draws attempt) of
               Inl oe \<Rightarrow>
                 \<lparr>outcome_of = Inl oe, world_after = w', policy_after = p1, slept = sl\<rparr>
             | Inr delay \<Rightarrow>
                 (let p2 = p1\<lparr>total_delay := total_delay p1 + delay\<rparr>
                  in execute_loop cfg draws func left (Suc attempt) w' p2 (sl @ [delay])
                       (Some e))))"

definition execute ::
  "RetryConfig \<Rightarrow> (nat \<Rightarrow> real) \<Rightarrow> RetryPolicy \<Rightarrow> ('a, 'w) callable \<Rightarrow> 'w \<Rightarrow> ('a, 'w) execution" where
  "execute cfg draws p func w =
     execute_loop cfg draws func (nat (max_retries cfg + 1)) 0 w p [] None"







definition falling_draws :: "nat \<Rightarrow> real" where
  "falling_draws n = (if n = 0 then 9 / 10 else 1 / 10)"


section \<open>Static credential provider (agentweave/identity/mtls.py)\<close>

text \<open>
  Log output is a list of records, level and message; the messages are abbreviated to
  their fixed part.
\<close>

datatype log_level = LOG_DEBUG | LOG_INFO | LOG_WARNING | LOG_ERROR

type_synonym log = "(log_level \<times> string) list"

text \<open>
  An \<open>X509Svid\<close>: the identifier and, of its leaf certificate, the instant
  \<open>not_valid_after_utc\<close>. Chain and key are opaque (\<open>'k\<close>).
\<close>

record 'k X509Svid =
  svid_spiffe_id :: string
  not_valid_after_utc :: real
  cert_chain_and_key :: 'k

record 'k StaticMTLSProvider =
  loaded_svid :: "'k X509Svid option"
  initialized :: bool

text \<open>
  \<open>IdentityError\<close> as \<open>mtls.py\<close> imports it: the class of \<open>identity/base.py\<close>, a
  direct subclass of \<open>Exception\<close> (not the class of the same name in
  \<open>agentweave/exceptions.py\<close>).
\<close>

definition IdentityError :: "string \<Rightarrow> py_exn" where
  "IdentityError s = Exn [''IdentityError'', ''Exception'', ''BaseException''] s"

definition AttributeError :: "string \<Rightarrow> py_exn" where
  "AttributeError s = Exn [''AttributeError'', ''Exception'', ''BaseException''] s"

text \<open>
  \<open>StaticMTLSProvider.get_svid\<close>: \<open>_ensure_initialized\<close> raises \<open>IdentityError\<close>; then
  the expiry test, which the source writes as
  \<open>leaf.not_valid_after_utc < leaf.not_valid_after_utc\<close> and whose branch only logs a
  warning; then \<open>return self._svid\<close> on every path. The function reads no clock.
  \<open>initialize\<close> sets \<open>_svid\<close> before \<open>_initialized\<close>; a provider marked initialized
  without an SVID would fail on \<open>self._svid.leaf\<close>.
\<close>

definition get_svid :: "'k StaticMTLSProvider \<Rightarrow> (py_exn + 'k X509Svid) \<times> log" where
  "get_svid p =
     (if \<not> initialized p then
        (Inl (IdentityError (''Static mTLS provider not initialized. ''
                @ ''Call initialize() before using the provider.'')), [])
      else
        (case loaded_svid p of
           None \<Rightarrow> (Inl (AttributeError
                      (CHR 0x27 # ''NoneType' object has no attribute 'leaf'' @ [CHR 0x27])), [])
         | Some s \<Rightarrow>
             (Inr s,
              if not_valid_after_utc s < not_valid_after_utc s
              then [(LOG_WARNING, ''Certificate has expired'')] else [])))"

text \<open>
  \<open>StaticMTLSProvider.health_check\<close>. \<open>files_missing\<close> says whether
  \<open>_validate_file_paths\<close> raises; every exception inside the \<open>try\<close> gives \<open>False\<close>.
  The expiry test is again the source's comparison of \<open>not_valid_after_utc\<close> with
  itself.
\<close>

definition health_check :: "'k StaticMTLSProvider \<Rightarrow> bool \<Rightarrow> bool \<times> log" where
  "health_check p files_missing =
     (if \<not> initialized p then
        (False, [(LOG_WARNING, ''Health check failed: provider not initialized'')])
      else if files_missing then (False, [(LOG_ERROR, ''Health check failed'')])
      else
        (case get_svid p of
           (Inl e, l) \<Rightarrow> (False, l @ [(LOG_ERROR, ''Health check failed'')])
         | (Inr s, l) \<Rightarrow>
             if not_valid_after_utc s < not_valid_after_utc s
             then (False, l @ [(LOG_ERROR, ''Health check failed: certificate expired'')])
             else (True, l @ [(LOG_DEBUG, ''Health check passed'')])))"

text \<open>A provider whose certificate stopped being valid at instant 100.\<close>

definition expired_svid :: "nat X509Svid" where
  "expired_svid = \<lparr>svid_spiffe_id = ''spiffe://agentweave.io/agent/test'',
     not_valid_after_utc = 100, cert_chain_and_key = 0\<rparr>"

definition expired_provider :: "nat StaticMTLSProvider" where
  "expired_provider = \<lparr>loaded_svid = Some expired_svid, initialized = True\<rparr>"

section \<open>Peer patterns of a capability (agentweave/decorators.py)\<close>

record RequestContext =
  caller_id :: string
  context_task_id :: string

text \<open>
  A handler as the decorators see it: it runs in the current request context (the
  value of \<open>get_current_context()\<close>, \<open>None\<close> when no request is being served) and acts on
  the world.
\<close>

type_synonym ('a, 'w) handler = "RequestContext option \<Rightarrow> ('a, 'w) callable"

text \<open>
  \<open>requires_peer(spiffe_pattern)(func)\<close>: the wrapper the decorator returns. It takes
  one pattern. Without a context, or when the caller does not match the pattern, it
  raises \<open>PermissionError\<close> and does not call \<open>func\<close>. \<open>fnmatch.fnmatch(name, pattern)\<close>
  is the standard library's and is the argument \<open>fnm\<close>.
\<close>

definition requires_peer ::
  "(string \<Rightarrow> string \<Rightarrow> bool) \<Rightarrow> string \<Rightarrow> ('a, 'w) handler \<Rightarrow> ('a, 'w) handler" where
  "requires_peer fnm spiffe_pattern func context w =
     (case context of
        None \<Rightarrow>
          (Raises (PermissionError ''No request context available for peer verification''), w)
      | Some c \<Rightarrow>
          if \<not> fnm (caller_id c) spiffe_pattern then
            (Raises (PermissionError (''Caller '' @ caller_id c
               @ '' does not match required peer pattern '' @ spiffe_pattern)), w)
          else func context w)"

text \<open>
  A capability declared with a list of peer patterns: the only way the module offers is
  one \<open>@requires_peer\<close> per pattern, stacked on the handler, the first of the list
  outermost.
\<close>

definition with_peer_patterns ::
  "(string \<Rightarrow> string \<Rightarrow> bool) \<Rightarrow> string list \<Rightarrow> ('a, 'w) handler \<Rightarrow> ('a, 'w) handler" where
  "with_peer_patterns fnm patterns func = foldr (requires_peer fnm) patterns func"

text \<open>
  \<open>fnmatch.fnmatch(name, pattern)\<close> on a POSIX system (no case folding) for patterns
  without bracket expressions: \<open>*\<close> matches any run of characters, \<open>?\<close> any single
  character, every other character itself. Used to evaluate the decorators on concrete
  patterns.
\<close>

fun glob_match :: "string \<Rightarrow> string \<Rightarrow> bool" where
  "glob_match [] [] = True"
| "glob_match [] (c # cs) = False"
| "glob_match (p # ps) [] = (p = CHR ''*'' \<and> glob_match ps [])"
| "glob_match (p # ps) (c # cs) =
     (if p = CHR ''*'' then glob_match ps (c # cs) \<or> glob_match (p # ps) cs
      else (p = CHR ''?'' \<or> p = c) \<and> glob_match ps cs)"

definition fnmatch :: "string \<Rightarrow> string \<Rightarrow> bool" where
  "fnmatch name pattern = glob_match pattern name"

definition search_handler :: "(nat, sim_world) handler" where
  "search_handler context = ok_request"

definition agent_context :: RequestContext where
  "agent_context = \<lparr>caller_id = ''spiffe://a.io/agent/x'', context_task_id = ''task-1''\<rparr>"

section \<open>Authorization through the policy engine (agentweave/authz/opa.py)\<close>

record AuthzDecision =
  allowed :: bool
  reason :: string
  policy_id :: "string option"
  audit_id :: string

text \<open>
  \<open>AuthzDecision(allowed, reason, policy_id)\<close>: \<open>__post_init__\<close> fills the empty
  \<open>audit_id\<close> with \<open>str(uuid.uuid4())\<close>, here the argument \<open>uuid\<close>.
\<close>

definition new_AuthzDecision :: "bool \<Rightarrow> string \<Rightarrow> string option \<Rightarrow> string \<Rightarrow> AuthzDecision" where
  "new_AuthzDecision a r pid uuid = \<lparr>allowed = a, reason = r, policy_id = pid, audit_id = uuid\<rparr>"

subsection \<open>The module's own circuit breaker\<close>

text \<open>
  \<open>opa.CircuitBreaker\<close>; its states are the strings "CLOSED", "OPEN", "HALF_OPEN",
  modelled by the constructors of the same names.
\<close>

record OPA_CircuitBreaker =
  cb_failure_threshold :: int
  cb_recovery_timeout :: real
  cb_success_threshold :: int
  cb_failure_count :: int
  cb_success_count :: int
  cb_last_failure_time :: "real option"
  cb_state :: CircuitState

definition CircuitBreakerError :: py_exn where
  "CircuitBreakerError = Exn [''CircuitBreakerError'', ''Exception'', ''BaseException'']
     ''Circuit breaker is OPEN''"

definition TypeError :: "string \<Rightarrow> py_exn" where
  "TypeError s = Exn [''TypeError'', ''Exception'', ''BaseException''] s"

definition ValueError :: "string \<Rightarrow> py_exn" where
  "ValueError s = Exn [''ValueError'', ''Exception'', ''BaseException''] s"

definition on_success :: "OPA_CircuitBreaker \<Rightarrow> OPA_CircuitBreaker" where
  "on_success cb =
     (let cb1 = cb\<lparr>cb_failure_count := 0\<rparr>
      in if cb_state cb1 = HALF_OPEN then
           (let cb2 = cb1\<lparr>cb_success_count := cb_success_count cb1 + 1\<rparr>
            in if cb_success_count cb2 \<ge> cb_success_threshold cb2
               then cb2\<lparr>cb_state := CLOSED, cb_success_count := 0\<rparr> else cb2)
         else cb1)"

definition on_failure :: "OPA_CircuitBreaker \<Rightarrow> real \<Rightarrow> OPA_CircuitBreaker" where
  "on_failure cb now =
     (let cb1 = cb\<lparr>cb_failure_count := cb_failure_count cb + 1,
                   cb_last_failure_time := Some now\<rparr>
      in if cb_state cb1 = HALF_OPEN then cb1\<lparr>cb_state := OPEN, cb_success_count := 0\<rparr>
         else if cb_failure_count cb1 \<ge> cb_failure_threshold cb1 then cb1\<lparr>cb_state := OPEN\<rparr>
         else cb1)"

text \<open>
  \<open>opa.CircuitBreaker.call(func)\<close>, with \<open>datetime.utcnow()\<close> a reading \<open>clock w\<close> of
  the world. An OPEN breaker lets the call through (as HALF_OPEN) only when more than
  \<open>recovery_timeout\<close> seconds have passed since the last failure; otherwise it raises
  \<open>CircuitBreakerError\<close> and \<open>func\<close> is not called. Subtracting a missing
  \<open>last_failure_time\<close> is a \<open>TypeError\<close>. \<open>except Exception\<close> records the failure and
  raises it again.
\<close>

definition opa_call ::
  "OPA_CircuitBreaker \<Rightarrow> ('w \<Rightarrow> real) \<Rightarrow> ('a, 'w) callable \<Rightarrow> 'w
     \<Rightarrow> (py_exn + 'a) \<times> OPA_CircuitBreaker \<times> 'w" where
  "opa_call cb clock func w =
     (let admit =
        (if cb_state cb = OPEN then
           (case cb_last_failure_time cb of
              None \<Rightarrow> Inl (TypeError ''unsupported operand type(s) for -'')
            | Some t \<Rightarrow>
                if clock w - t > cb_recovery_timeout cb
                then Inr (cb\<lparr>cb_state := HALF_OPEN, cb_success_count := 0\<rparr>)
                else Inl CircuitBreakerError)
         else Inr cb)
      in case admit of
           Inl e \<Rightarrow> (Inl e, cb, w)
         | Inr cb1 \<Rightarrow>
             (case func w of
                (Returns r, w') \<Rightarrow> (Inr r, on_success cb1, w')
              | (Raises e, w') \<Rightarrow>
                  if is_Exception e then (Inl e, on_failure cb1 (clock w'), w')
                  else (Inl e, cb1, w')))"

subsection \<open>The decision cache\<close>

text \<open>
  Two functions of Python that the cache key is computed with and that this
  development does not interpret: the hex digest of SHA-256 and \<open>str(sorted(items))\<close>.
\<close>

record py_lib =
  sha256_hexdigest :: "string \<Rightarrow> string"
  str_sorted_items :: "(string \<times> string) list \<Rightarrow> string"

text \<open>
  The \<open>OrderedDict\<close> of the cache: keys with their entry (decision, timestamp), oldest
  first.
\<close>

record DecisionCache =
  max_size :: int
  ttl_seconds :: real
  entries :: "(string \<times> AuthzDecision \<times> real) list"

definition od_delete :: "'k \<Rightarrow> ('k \<times> 'v) list \<Rightarrow> ('k \<times> 'v) list" where
  "od_delete k xs = filter (\<lambda>kv. fst kv \<noteq> k) xs"

definition od_move_to_end :: "'k \<Rightarrow> ('k \<times> 'v) list \<Rightarrow> ('k \<times> 'v) list" where
  "od_move_to_end k xs =
     (case map_of xs k of None \<Rightarrow> xs | Some v \<Rightarrow> od_delete k xs @ [(k, v)])"

text \<open>\<open>d[k] = v\<close>: an existing key keeps its place, a new key goes to the end.\<close>

definition od_set :: "'k \<Rightarrow> 'v \<Rightarrow> ('k \<times> 'v) list \<Rightarrow> ('k \<times> 'v) list" where
  "od_set k v xs =
     (if map_of xs k = None then xs @ [(k, v)]
      else map (\<lambda>kv. if fst kv = k then (k, v) else kv) xs)"

text \<open>
  \<open>DecisionCache._make_key\<close>. The context is \<open>None\<close> or a dict (its items as a list);
  \<open>if context\<close> is false for both \<open>None\<close> and the empty dict.
\<close>

definition make_key ::
  "py_lib \<Rightarrow> string \<Rightarrow> string \<Rightarrow> string \<Rightarrow> (string \<times> string) list option \<Rightarrow> string" where
  "make_key lib caller resource action context =
     (let context_str = (case context of
                           None \<Rightarrow> []
                         | Some items \<Rightarrow> if items = [] then [] else str_sorted_items lib items)
      in sha256_hexdigest lib
           (caller @ '':'' @ resource @ '':'' @ action @ '':'' @ context_str))"

text \<open>\<open>DecisionCache.get\<close>: a missing or expired entry gives \<open>None\<close>; the expired one is deleted.\<close>

definition cache_get ::
  "py_lib \<Rightarrow> DecisionCache \<Rightarrow> string \<Rightarrow> string \<Rightarrow> string \<Rightarrow> (string \<times> string) list option
     \<Rightarrow> real \<Rightarrow> AuthzDecision option \<times> DecisionCache" where
  "cache_get lib c caller resource action context now =
     (let key = make_key lib caller resource action context
      in case map_of (entries c) key of
           None \<Rightarrow> (None, c)
         | Some (decision, timestamp) \<Rightarrow>
             if now - timestamp > ttl_seconds c
             then (None, c\<lparr>entries := od_delete key (entries c)\<rparr>)
             else (Some decision, c\<lparr>entries := od_move_to_end key (entries c)\<rparr>))"

text \<open>\<open>DecisionCache.put\<close>: store, move to the end, evict the oldest when over size.\<close>

definition cache_put ::
  "py_lib \<Rightarrow> DecisionCache \<Rightarrow> string \<Rightarrow> string \<Rightarrow> string \<Rightarrow> (string \<times> string) list option
     \<Rightarrow> AuthzDecision \<Rightarrow> real \<Rightarrow> DecisionCache" where
  "cache_put lib c caller resource action context decision now =
     (let key = make_key lib caller resource action context;
          xs = od_move_to_end key (od_set key (decision, now) (entries c))
      in if int (length xs) > max_size c then c\<lparr>entries := tl xs\<rparr> else c\<lparr>entries := xs\<rparr>)"

subsection \<open>The provider\<close>

record OPAProvider =
  default_deny :: bool
  decision_cache :: DecisionCache
  circuit_breaker :: OPA_CircuitBreaker

record input_doc =
  caller_spiffe_id :: string
  resource_spiffe_id :: string
  doc_action :: string
  doc_timestamp :: real
  caller_trust_domain :: "string option"
  resource_trust_domain :: "string option"
  doc_context :: "(string \<times> string) list option"

text \<open>
  \<open>s.split('/')[2] if s.startswith('spiffe://') else None\<close>, kept only when not empty
  (\<open>if caller_domain:\<close>): the text between \<open>spiffe://\<close> and the next slash.
\<close>

definition trust_domain_of :: "string \<Rightarrow> string option" where
  "trust_domain_of s =
     (if prefix ''spiffe://'' s then
        (let d = takeWhile (\<lambda>c. c \<noteq> CHR ''/'') (drop 9 s)
         in if d = [] then None else Some d)
      else None)"

definition build_input ::
  "string \<Rightarrow> string \<Rightarrow> string \<Rightarrow> (string \<times> string) list option \<Rightarrow> real \<Rightarrow> input_doc" where
  "build_input caller resource action context now =
     \<lparr>caller_spiffe_id = caller, resource_spiffe_id = resource, doc_action = action,
      doc_timestamp = now, caller_trust_domain = trust_domain_of caller,
      resource_trust_domain = trust_domain_of resource,
      doc_context = (case context of None \<Rightarrow> None
                     | Some items \<Rightarrow> if items = [] then None else Some items)\<rparr>"

text \<open>
  What the policy engine answered: the \<open>result\<close> member of the JSON body. A transport
  error, an HTTP error status and an undecodable body are exceptions of the call.
\<close>

datatype opa_result =
    ResultMissing
  | ResultBool bool
  | ResultObject "bool option" "string option" "string option"
  | ResultOther string

type_synonym 'w policy_engine = "input_doc \<Rightarrow> (opa_result, 'w) callable"

text \<open>\<open>OPAProvider._query_opa\<close>: the HTTP call, then the parsing of the result.\<close>

definition query_opa :: "'w policy_engine \<Rightarrow> input_doc \<Rightarrow> string \<Rightarrow> (AuthzDecision, 'w) callable" where
  "query_opa engine doc uuid w =
     (case engine doc w of
        (Raises e, w') \<Rightarrow> (Raises e, w')
      | (Returns r, w') \<Rightarrow>
          (case r of
             ResultMissing \<Rightarrow>
               (Raises (ValueError ''OPA response missing 'result' field''), w')
           | ResultBool b \<Rightarrow>
               (Returns (new_AuthzDecision b
                  (if b then ''Policy decision'' else ''Policy denied'') None uuid), w')
           | ResultObject a r p \<Rightarrow>
               (Returns (new_AuthzDecision (case a of None \<Rightarrow> False | Some x \<Rightarrow> x)
                  (case r of None \<Rightarrow> ''Policy decision'' | Some s \<Rightarrow> s) p uuid), w')
           | ResultOther t \<Rightarrow>
               (Raises (ValueError (''Unexpected OPA result type: '' @ t)), w')))"

text \<open>\<open>OPAProvider._default_decision\<close>: the decision and the warning it logs.\<close>

definition default_decision ::
  "OPAProvider \<Rightarrow> string \<Rightarrow> string \<Rightarrow> string \<Rightarrow> string \<Rightarrow> string \<Rightarrow> AuthzDecision \<times> log" where
  "default_decision p caller resource action err uuid =
     (if default_deny p then
        (new_AuthzDecision False (''OPA unavailable, default deny policy applied: '' @ err)
           (Some ''default-deny'') uuid,
         [(LOG_WARNING, ''Default DENY applied: '' @ caller @ '' -> '' @ resource @ '':''
             @ action @ '' (OPA unavailable: '' @ err @ '')'')])
      else
        (new_AuthzDecision True (''OPA unavailable, default allow policy applied: '' @ err)
           (Some ''default-allow'') uuid,
         [(LOG_WARNING, ''Default ALLOW applied: '' @ caller @ '' -> '' @ resource @ '':''
             @ action @ '' (OPA unavailable: '' @ err @ '')'')]))"

text \<open>
  \<open>OPAProvider._audit_log\<close>: the one INFO line that starts with \<open>AUTHZ: \<close>. An audit-log
  entry is a log record of that form.
\<close>

definition audit_log :: "string \<Rightarrow> string \<Rightarrow> string \<Rightarrow> AuthzDecision \<Rightarrow> log" where
  "audit_log caller resource action decision =
     [(LOG_INFO, ''AUTHZ: '' @ audit_id decision @ '' | caller='' @ caller
         @ '' | resource='' @ resource @ '' | action='' @ action
         @ '' | allowed='' @ (if allowed decision then ''True'' else ''False'')
         @ '' | reason='' @ reason decision
         @ '' | policy_id='' @ (case policy_id decision of None \<Rightarrow> ''None'' | Some i \<Rightarrow> i))]"

definition is_audit_entry :: "log_level \<times> string \<Rightarrow> bool" where
  "is_audit_entry r = (fst r = LOG_INFO \<and> prefix ''AUTHZ: '' (snd r))"

text \<open>
  \<open>OPAProvider.check\<close>. The result is the decision (or an exception that
  \<open>except Exception\<close> does not catch), the provider after the call, the log records the
  call wrote and the world. A cached decision is returned at once. Otherwise the engine
  is queried through the breaker; only on the path where that call returned are
  \<open>_cache.put\<close> and \<open>_audit_log\<close> reached. \<open>CircuitBreakerError\<close> and every other
  \<open>Exception\<close> go to \<open>_default_decision\<close> with \<open>str(e)\<close>.
\<close>

definition check ::
  "py_lib \<Rightarrow> ('w \<Rightarrow> real) \<Rightarrow> 'w policy_engine \<Rightarrow> OPAProvider \<Rightarrow> string \<Rightarrow> string \<Rightarrow> string
     \<Rightarrow> (string \<times> string) list option \<Rightarrow> string \<Rightarrow> 'w
     \<Rightarrow> (py_exn + AuthzDecision) \<times> OPAProvider \<times> log \<times> 'w" where
  "check lib clock engine p caller resource action context uuid w =
     (case cache_get lib (decision_cache p) caller resource action context (clock w) of
        (Some cached, c1) \<Rightarrow>
          (Inr cached, p\<lparr>decision_cache := c1\<rparr>,
           [(LOG_DEBUG, ''Cache hit for '' @ caller @ '' -> '' @ resource @ '':'' @ action)], w)
      | (None, c1) \<Rightarrow>
          (let doc = build_input caller resource action context (clock w)
           in case opa_call (circuit_breaker p) clock (query_opa engine doc uuid) w of
                (Inr decision, cb', w') \<Rightarrow>
                  (Inr decision,
                   p\<lparr>decision_cache :=
                        cache_put lib c1 caller resource action context decision (clock w'),
                      circuit_breaker := cb'\<rparr>,
                   audit_log caller resource action decision, w')
              | (Inl e, cb', w') \<Rightarrow>
                  if isinstance e [''CircuitBreakerError''] then
                    (case default_decision p caller resource action (exn_str e) uuid of
                       (d, l) \<Rightarrow>
                         (Inr d, p\<lparr>decision_cache := c1, circuit_breaker := cb'\<rparr>,
                          (LOG_ERROR, ''Circuit breaker open, applying default policy: ''
                             @ exn_str e) # l, w'))
                  else if is_Exception e then
                    (case default_decision p caller resource action (exn_str e) uuid of
                       (d, l) \<Rightarrow>
                         (Inr d, p\<lparr>decision_cache := c1, circuit_breaker := cb'\<rparr>,
                          (LOG_ERROR, ''OPA query failed: '' @ exn_str e) # l, w'))
                  else (Inl e, p\<lparr>decision_cache := c1, circuit_breaker := cb'\<rparr>, [], w')))"

text \<open>Python's \<open>sub in s\<close> for strings.\<close>

fun str_contains :: "string \<Rightarrow> string \<Rightarrow> bool" where
  "str_contains sub [] = (sub = [])"
| "str_contains sub (c # cs) = (prefix sub (c # cs) \<or> str_contains sub cs)"

text \<open>
  Inputs used to evaluate the provider: a provider with default deny, an empty cache and
  a fresh breaker; the same provider with its breaker opened by a failure at instant 5;
  an engine that is down (HTTP 503) and one that allows; and stand-ins for the two
  library functions of the cache key (the key text itself as its digest).
\<close>

definition fresh_breaker :: OPA_CircuitBreaker where
  "fresh_breaker = \<lparr>cb_failure_threshold = 5, cb_recovery_timeout = 30,
     cb_success_threshold = 2, cb_failure_count = 0, cb_success_count = 0,
     cb_last_failure_time = None, cb_state = CLOSED\<rparr>"

definition deny_provider :: OPAProvider where
  "deny_provider = \<lparr>default_deny = True,
     decision_cache = \<lparr>max_size = 1000, ttl_seconds = 60, entries = []\<rparr>,
     circuit_breaker = fresh_breaker\<rparr>"

definition open_provider :: OPAProvider where
  "open_provider = deny_provider\<lparr>circuit_breaker :=
     fresh_breaker\<lparr>cb_failure_count := 5, cb_last_failure_time := Some 5, cb_state := OPEN\<rparr>\<rparr>"

definition HTTPStatusError :: py_exn where
  "HTTPStatusError = Exn [''HTTPStatusError'', ''HTTPError'', ''Exception'', ''BaseException'']
     ''Server error 503 Service Unavailable''"

definition engine_down :: "sim_world policy_engine" where
  "engine_down doc w =
     (Raises HTTPStatusError, w\<lparr>sim_time := sim_time w + 1, sim_calls := sim_calls w + 1\<rparr>)"

definition engine_allows :: "sim_world policy_engine" where
  "engine_allows doc w =
     (Returns (ResultObject (Some True) (Some ''same-domain'') None),
      w\<lparr>sim_time := sim_time w + 1, sim_calls := sim_calls w + 1\<rparr>)"

definition plain_lib :: py_lib where
  "plain_lib = \<lparr>sha256_hexdigest = (\<lambda>s. s), str_sorted_items = (\<lambda>items. concat (map fst items))\<rparr>"

section \<open>Secure channel (agentweave/transport/channel.py)\<close>

text \<open>
  A peer certificate as the channel reads it: bytes that do not decode, or a certificate
  with or without a subject-alternative-name extension holding general names.
\<close>

datatype GeneralName = UniformResourceIdentifier string | DNSName string | IPAddress string

datatype certificate = Undecodable | Certificate "GeneralName list option"

text \<open>The loop of \<open>_extract_spiffe_id_from_cert\<close>: the first URI that starts with \<open>spiffe://\<close>.\<close>

fun first_spiffe_uri :: "GeneralName list \<Rightarrow> string option" where
  "first_spiffe_uri [] = None"
| "first_spiffe_uri (UniformResourceIdentifier uri # names) =
     (if prefix ''spiffe://'' uri then Some uri else first_spiffe_uri names)"
| "first_spiffe_uri (n # names) = first_spiffe_uri names"

text \<open>Every exception while parsing, a missing extension included, gives \<open>None\<close>.\<close>

definition extract_spiffe_id_from_cert :: "certificate \<Rightarrow> string option" where
  "extract_spiffe_id_from_cert cert_der =
     (case cert_der of
        Undecodable \<Rightarrow> None
      | Certificate None \<Rightarrow> None
      | Certificate (Some names) \<Rightarrow> first_spiffe_uri names)"

definition PeerVerificationError :: "string \<Rightarrow> string option \<Rightarrow> py_exn" where
  "PeerVerificationError expected_id actual_id =
     Exn [''PeerVerificationError'', ''Exception'', ''BaseException'']
       (''Peer verification failed. Expected SPIFFE ID: '' @ expected_id @ '', Got: ''
          @ (case actual_id of None \<Rightarrow> ''None'' | Some a \<Rightarrow> if a = [] then ''None'' else a))"

text \<open>
  \<open>SecureChannel._verify_peer_callback\<close>: raises unless the extracted identifier is the
  expected one.
\<close>

definition verify_peer_callback :: "string \<Rightarrow> certificate \<Rightarrow> py_exn + unit" where
  "verify_peer_callback expected_peer_spiffe_id cert_der =
     (let peer_id = extract_spiffe_id_from_cert cert_der
      in if peer_id \<noteq> Some expected_peer_spiffe_id
         then Inl (PeerVerificationError expected_peer_spiffe_id peer_id)
         else Inr ())"

datatype TLSVersion = TLSv1 | TLSv1_1 | TLSv1_2 | TLSv1_3

text \<open>
  The channel's \<open>TransportConfig\<close> (a dataclass of \<open>channel.py\<close>, not the pydantic model
  of the same name) and its \<open>__post_init__\<close>.
\<close>

record ChannelConfig =
  channel_tls_min_version :: TLSVersion
  channel_tls_max_version :: TLSVersion
  channel_timeout :: real
  verify_peer :: bool
  retry_config :: "RetryConfig option"

definition ChannelConfig_post_init :: "ChannelConfig \<Rightarrow> string + unit" where
  "ChannelConfig_post_init c =
     (if \<not> verify_peer c then Inl ''verify_peer cannot be False''
      else if channel_tls_min_version c \<in> {TLSv1, TLSv1_1}
        then Inl ''tls_min_version must be at least TLSv1_2''
      else if channel_timeout c \<le> 0 then Inl ''timeout must be positive''
      else Inr ())"

text \<open>
  The \<open>ssl.SSLContext\<close> after \<open>_create_ssl_context\<close>: the identity's own material
  (\<open>'i\<close>) and the four attributes the method sets. The method sets nothing else: the
  trust bundle it fetches is only counted in a debug message, and neither the expected
  peer identifier nor \<open>_verify_peer_callback\<close> is handed to the context.
\<close>

record 'i SSLContext =
  svid_material :: 'i
  minimum_version :: TLSVersion
  maximum_version :: TLSVersion
  verify_mode_CERT_REQUIRED :: bool
  check_hostname :: bool

text \<open>The identity provider as the channel uses it.\<close>

record 'i identity_provider =
  get_svid_context :: "py_exn + 'i"
  get_trust_bundle_for_domain :: "string \<Rightarrow> py_exn + nat"

text \<open>
  \<open>urlparse(spiffe_id).netloc\<close> for an identifier that starts with \<open>spiffe://\<close> (the
  constructor refuses any other): the text up to the next \<open>/\<close>, \<open>?\<close> or \<open>#\<close>. The
  definition covers the identifiers whose authority holds no square bracket; on one
  with a bracket \<open>urlparse\<close> validates an IPv6 literal and can raise \<open>ValueError\<close>.
\<close>

definition extract_trust_domain :: "string \<Rightarrow> string" where
  "extract_trust_domain spiffe_id =
     takeWhile (\<lambda>c. c \<notin> {CHR ''/'', CHR ''?'', CHR ''#''}) (drop 9 spiffe_id)"

record 'i SecureChannel =
  peer_spiffe_id :: string
  channel_config :: ChannelConfig
  client :: "'i SSLContext option"

definition SecureChannel_init :: "string \<Rightarrow> ChannelConfig \<Rightarrow> py_exn + 'i SecureChannel" where
  "SecureChannel_init peer cfg =
     (if \<not> prefix ''spiffe://'' peer
      then Inl (ValueError (''Invalid SPIFFE ID: '' @ peer @ ''. Must start with 'spiffe://''
                  @ [CHR 0x27]))
      else Inr \<lparr>peer_spiffe_id = peer, channel_config = cfg, client = None\<rparr>)"

definition create_ssl_context :: "'i SecureChannel \<Rightarrow> 'i identity_provider \<Rightarrow> py_exn + 'i SSLContext" where
  "create_ssl_context ch idp =
     (case get_svid_context idp of
        Inl e \<Rightarrow> if is_Exception e
                 then Inl (RuntimeError (''Cannot create SSL context: '' @ exn_str e)) else Inl e
      | Inr material \<Rightarrow>
          (let ctx = \<lparr>svid_material = material,
                      minimum_version = channel_tls_min_version (channel_config ch),
                      maximum_version = channel_tls_max_version (channel_config ch),
                      verify_mode_CERT_REQUIRED = True,
                      check_hostname = False\<rparr>
           in case get_trust_bundle_for_domain idp (extract_trust_domain (peer_spiffe_id ch)) of
                Inl e \<Rightarrow> if is_Exception e
                         then Inl (RuntimeError (''Cannot verify peer: '' @ exn_str e)) else Inl e
              | Inr ca_certs \<Rightarrow> Inr ctx))"

text \<open>\<open>_ensure_client\<close>: the httpx client is built once, from the context alone.\<close>

definition ensure_client ::
  "'i SecureChannel \<Rightarrow> 'i identity_provider \<Rightarrow> py_exn + ('i SSLContext \<times> 'i SecureChannel)" where
  "ensure_client ch idp =
     (case client ch of
        Some ctx \<Rightarrow> Inr (ctx, ch)
      | None \<Rightarrow>
          (case create_ssl_context ch idp of
             Inl e \<Rightarrow> Inl e
           | Inr ctx \<Rightarrow> Inr (ctx, ch\<lparr>client := Some ctx\<rparr>)))"

text \<open>
  What \<open>httpx.AsyncClient(verify=ctx).request(method, url)\<close> does is the library's and
  the network's: a function of the context, the method and the URL acting on the world.
  It returns the response's status code.
\<close>

type_synonym ('i, 'w) http_client = "'i SSLContext \<Rightarrow> string \<Rightarrow> string \<Rightarrow> (nat, 'w) callable"

text \<open>
  \<open>SecureChannel.request\<close>: ensure the client, then the request, through a fresh
  \<open>RetryPolicy\<close> when a retry configuration is set. The two audit log lines are
  omitted. No step of the method reads the peer's certificate or calls
  \<open>_verify_peer_callback\<close>.
\<close>

definition request ::
  "('i, 'w) http_client \<Rightarrow> 'i identity_provider \<Rightarrow> (nat \<Rightarrow> real) \<Rightarrow> 'i SecureChannel
     \<Rightarrow> string \<Rightarrow> string \<Rightarrow> 'w \<Rightarrow> (py_exn + nat) \<times> 'i SecureChannel \<times> 'w" where
  "request http idp draws ch method url w =
     (case ensure_client ch idp of
        Inl e \<Rightarrow> (Inl e, ch, w)
      | Inr (ctx, ch') \<Rightarrow>
          (case retry_config (channel_config ch') of
             Some rc \<Rightarrow>
               (let ex = execute rc draws \<lparr>attempt_count = 0, total_delay = 0\<rparr>
                           (http ctx method url) w
                in (outcome_of ex, ch', world_after ex))
           | None \<Rightarrow>
               (case http ctx method url w of
                  (Returns response, w') \<Rightarrow> (Inr response, ch', w')
                | (Raises e, w') \<Rightarrow> (Inl e, ch', w'))))"

subsection \<open>A TLS peer to evaluate the channel against\<close>

text \<open>
  A server as the world of the channel: the certificate it presents, whether that
  certificate chains to a trusted authority, and the requests it has served. The client
  below is a TLS client that does what the context asks for and nothing more: with
  \<open>CERT_REQUIRED\<close> the handshake fails on an untrusted chain; with \<open>check_hostname\<close> off
  no name is compared; then the server answers 200.
\<close>

record tls_server =
  presented_certificate :: certificate
  chain_trusted :: bool
  requests_served :: nat

definition SSLError :: py_exn where
  "SSLError = Exn [''SSLCertVerificationError'', ''SSLError'', ''OSError'', ''Exception'',
     ''BaseException''] ''certificate verify failed''"

definition tls_client :: "(nat, tls_server) http_client" where
  "tls_client ctx method url srv =
     (if verify_mode_CERT_REQUIRED ctx \<and> \<not> chain_trusted srv then (Raises SSLError, srv)
      else (Returns 200, srv\<lparr>requests_served := requests_served srv + 1\<rparr>))"

definition other_agent_server :: tls_server where
  "other_agent_server = \<lparr>presented_certificate =
       Certificate (Some [DNSName ''other.example.com'',
                          UniformResourceIdentifier ''spiffe://example.com/agent/other'']),
     chain_trusted = True, requests_served = 0\<rparr>"

definition search_channel :: "nat SecureChannel" where
  "search_channel = \<lparr>peer_spiffe_id = ''spiffe://example.com/agent/search'',
     channel_config = \<lparr>channel_tls_min_version = TLSv1_3, channel_tls_max_version = TLSv1_3,
       channel_timeout = 30, verify_peer = True, retry_config = None\<rparr>,
     client = None\<rparr>"

definition working_identity :: "nat identity_provider" where
  "working_identity = \<lparr>get_svid_context = Inr 7,
     get_trust_bundle_for_domain = (\<lambda>d. if d = ''example.com'' then Inr 1
        else Inl (Exn [''TrustDomainError'', ''Exception'', ''BaseException''] d))\<rparr>"

section \<open>Properties of the task lifecycle\<close>

lemma update_task_found:
  assumes "tasks m tid = Some t"
  shows "\<exists>t'. fst (update_task m tid st res err now) = Some t'
           \<and> tasks (snd (update_task m tid st res err now)) tid = Some t'
           \<and> state t' = (case st of None \<Rightarrow> state t | Some s \<Rightarrow> s)
           \<and> result t' = (case res of None \<Rightarrow> result t | Some r \<Rightarrow> Some r)
           \<and> error t' = (case st of None \<Rightarrow> error t
                          | Some s \<Rightarrow> (case err of None \<Rightarrow> error t
                                        | Some e \<Rightarrow> if e = [] then error t else Some e))"
  using assms
  by (auto simp: update_task_def update_state_def Let_def split: option.splits)

text \<open>
  C2, as stated: an update of a terminal task is rejected and leaves state, result and
  error unchanged. \<open>update_task\<close> has no such check. Here the handler's final update
  (\<open>_execute_task\<close>: state COMPLETED with the handler's result) arrives after the task
  was cancelled: the call returns the task, now COMPLETED and carrying the result.
\<close>

theorem C2_update_after_cancel_counterexample:
  "get_task cancelled_manager ''t2'' = Some cancelled_task
   \<and> is_terminal (state cancelled_task)
   \<and> result cancelled_task = None
   \<and> fst (update_task cancelled_manager ''t2'' (Some COMPLETED) (Some 5) None 4)
       = Some (cancelled_task\<lparr>state := COMPLETED, result := Some 5, updated_at := 4\<rparr>)
   \<and> get_task (snd (update_task cancelled_manager ''t2'' (Some COMPLETED) (Some 5) None 4)) ''t2''
       = Some (cancelled_task\<lparr>state := COMPLETED, result := Some 5, updated_at := 4\<rparr>)"
  by (simp add: get_task_def update_task_def update_state_def cancelled_manager_def
      cancelled_task_def Let_def)

text \<open>
  C2, amended: the update operation never rejects. For a task in the table whose state
  is terminal, \<open>update_task\<close> returns the task and stores it back with: the state set to
  the given state when one is given; the result replaced when a result other than
  \<open>None\<close> is given; the error replaced when a state and a non-empty error are given.
  State, result and error stay as they were exactly for the parts the call does not
  supply.
\<close>

theorem C2_update_task_terminal:
  assumes "tasks m tid = Some t" and "is_terminal (state t)"
  shows "\<exists>t'. fst (update_task m tid st res err now) = Some t'
           \<and> get_task (snd (update_task m tid st res err now)) tid = Some t'
           \<and> state t' = (case st of None \<Rightarrow> state t | Some s \<Rightarrow> s)
           \<and> result t' = (case res of None \<Rightarrow> result t | Some r \<Rightarrow> Some r)
           \<and> error t' = (case st of None \<Rightarrow> error t
                          | Some s \<Rightarrow> (case err of None \<Rightarrow> error t
                                        | Some e \<Rightarrow> if e = [] then error t else Some e))"
  using update_task_found [OF assms(1)] by (simp add: get_task_def)

theorem C2_update_task_terminal_witness:
  "tasks done_manager ''t1'' = Some done_task \<and> is_terminal (state done_task)
   \<and> (\<exists>t'. fst (update_task done_manager ''t1'' (Some RUNNING) None (Some ''late'') 9) = Some t'
          \<and> get_task (snd (update_task done_manager ''t1'' (Some RUNNING) None (Some ''late'') 9))
                ''t1'' = Some t'
          \<and> state t' = RUNNING \<and> result t' = Some 41 \<and> error t' = Some ''late'')"
proof -
  have a: "tasks done_manager ''t1'' = Some done_task"
    by (simp add: done_manager_def)
  have b: "is_terminal (state done_task)"
    by (simp add: done_task_def)
  have c: "result done_task = Some 41"
    by (simp add: done_task_def)
  show ?thesis
    using C2_update_task_terminal [OF a b, of "Some RUNNING" None "Some ''late''" 9] a b c
    by simp
qed



section \<open>Properties of configuration validation\<close>

lemma validate_security_Inr:
  assumes "validate_security c = Inr c'"
  shows "c' = c"
    and "is_production c \<Longrightarrow> default_action (authorization c) = DENY"
    and "is_production c \<Longrightarrow> provider (authorization c) \<noteq> ALLOW_ALL"
    and "is_production c \<Longrightarrow> peer_verification (transport c) = STRICT"
    and "is_production c \<Longrightarrow> enabled (audit (authorization c))"
  using assms by (auto simp: validate_security_def split: if_splits)

lemma enum_field_Inr:
  assumes "enum_field name of_value dflt raw = Inr x"
  shows "raw = None \<and> x = dflt \<or> (\<exists>v. raw = Some v \<and> of_value v = Some x)"
  using assms by (auto simp: enum_field_def split: option.splits)

lemma PeerVerification_of_value_none: "PeerVerification_of_value ''none'' = None"
  by (simp add: PeerVerification_of_value_def)

lemma AgentConfig_validate_Inr:
  assumes "AgentConfig_validate ok raw = Inr c"
  shows "validate_security c = Inr c"
    and "enum_field ''agent.environment'' Environment_of_value PRODUCTION
           (raw_environment raw) = Inr (environment (agent c))"
    and "enum_field ''transport.peer_verification'' PeerVerification_of_value STRICT
           (raw_peer_verification raw) = Inr (peer_verification (transport c))"
proof -
  from assms obtain env prov act pv tls where
    e: "enum_field ''agent.environment'' Environment_of_value PRODUCTION
          (raw_environment raw) = Inr env"
    and p: "enum_field ''transport.peer_verification'' PeerVerification_of_value STRICT
          (raw_peer_verification raw) = Inr pv"
    and v: "validate_security
         \<lparr>agent = \<lparr>environment = env, trust_domain = raw_trust_domain raw\<rparr>,
          identity = \<lparr>allowed_trust_domains = raw_allowed_trust_domains raw\<rparr>,
          authorization = \<lparr>provider = prov, default_action = act,
            audit = \<lparr>enabled = (case raw_audit_enabled raw of None \<Rightarrow> True | Some b \<Rightarrow> b)\<rparr>\<rparr>,
          transport = \<lparr>tls_min_version = tls, peer_verification = pv\<rparr>\<rparr> = Inr c"
    by (auto simp: AgentConfig_validate_def Let_def split: if_splits sum.splits)
  from validate_security_Inr(1) [OF v] have c: "c =
         \<lparr>agent = \<lparr>environment = env, trust_domain = raw_trust_domain raw\<rparr>,
          identity = \<lparr>allowed_trust_domains = raw_allowed_trust_domains raw\<rparr>,
          authorization = \<lparr>provider = prov, default_action = act,
            audit = \<lparr>enabled = (case raw_audit_enabled raw of None \<Rightarrow> True | Some b \<Rightarrow> b)\<rparr>\<rparr>,
          transport = \<lparr>tls_min_version = tls, peer_verification = pv\<rparr>\<rparr>" .
  show "validate_security c = Inr c" using v c by simp
  show "enum_field ''agent.environment'' Environment_of_value PRODUCTION
           (raw_environment raw) = Inr (environment (agent c))" using e c by simp
  show "enum_field ''transport.peer_verification'' PeerVerification_of_value STRICT
           (raw_peer_verification raw) = Inr (peer_verification (transport c))" using p c by simp
qed

text \<open>
  C5: whenever construction and validation of a configuration succeed, (a) if its
  environment is production then default_action is deny, the provider is not allow-all,
  peer_verification is strict and audit is enabled; (b) whatever the environment, the
  raw peer_verification value was not \<open>none\<close>. Read contrapositively: a production
  configuration missing any of the four, and any configuration with
  \<open>peer_verification = none\<close>, fails validation.
\<close>

theorem C5_validation_succeeds_only_if_secure:
  assumes "AgentConfig_validate ok raw = Inr c"
  shows "(environment (agent c) = PRODUCTION \<longrightarrow>
            default_action (authorization c) = DENY
          \<and> provider (authorization c) \<noteq> ALLOW_ALL
          \<and> peer_verification (transport c) = STRICT
          \<and> enabled (audit (authorization c)))
       \<and> raw_peer_verification raw \<noteq> Some ''none''"
proof -
  note v = AgentConfig_validate_Inr(1) [OF assms]
  have "raw_peer_verification raw \<noteq> Some ''none''"
    using enum_field_Inr [OF AgentConfig_validate_Inr(3) [OF assms]]
    by (auto simp: PeerVerification_of_value_none)
  then show ?thesis
    using validate_security_Inr(2-5) [OF v] by (simp add: is_production_def)
qed

theorem C5_validation_succeeds_only_if_secure_witness:
  "(\<exists>c. AgentConfig_validate True production_raw = Inr c
        \<and> environment (agent c) = PRODUCTION
        \<and> default_action (authorization c) = DENY
        \<and> provider (authorization c) \<noteq> ALLOW_ALL
        \<and> peer_verification (transport c) = STRICT
        \<and> enabled (audit (authorization c)))
   \<and> raw_peer_verification production_raw \<noteq> Some ''none''
   \<and> isl (AgentConfig_validate True (production_raw\<lparr>raw_default_action := Some ''log-only''\<rparr>))
   \<and> isl (AgentConfig_validate True (production_raw\<lparr>raw_provider := Some ''allow-all''\<rparr>))
   \<and> isl (AgentConfig_validate True (production_raw\<lparr>raw_peer_verification := Some ''log-only''\<rparr>))
   \<and> isl (AgentConfig_validate True (production_raw\<lparr>raw_audit_enabled := Some False\<rparr>))
   \<and> isl (AgentConfig_validate True
        (production_raw\<lparr>raw_environment := Some ''development'',
                        raw_peer_verification := Some ''none''\<rparr>))"
proof -
  obtain c where c: "AgentConfig_validate True production_raw = Inr c"
    by (simp add: AgentConfig_validate_def production_raw_def enum_field_def
        Environment_of_value_def AuthorizationProvider_of_value_def DefaultAction_of_value_def
        PeerVerification_of_value_def validate_security_def is_production_def)
  have env: "environment (agent c) = PRODUCTION"
    using AgentConfig_validate_Inr(2) [OF c]
    by (simp add: production_raw_def enum_field_def Environment_of_value_def)
  have rest: "isl (AgentConfig_validate True (production_raw\<lparr>raw_default_action := Some ''log-only''\<rparr>))
   \<and> isl (AgentConfig_validate True (production_raw\<lparr>raw_provider := Some ''allow-all''\<rparr>))
   \<and> isl (AgentConfig_validate True (production_raw\<lparr>raw_peer_verification := Some ''log-only''\<rparr>))
   \<and> isl (AgentConfig_validate True (production_raw\<lparr>raw_audit_enabled := Some False\<rparr>))
   \<and> isl (AgentConfig_validate True
        (production_raw\<lparr>raw_environment := Some ''development'',
                        raw_peer_verification := Some ''none''\<rparr>))"
    by (simp add: AgentConfig_validate_def production_raw_def enum_field_def
        Environment_of_value_def AuthorizationProvider_of_value_def DefaultAction_of_value_def
        PeerVerification_of_value_def validate_security_def is_production_def)
  show ?thesis
    using C5_validation_succeeds_only_if_secure [OF c] c env rest by simp
qed

section \<open>Properties of the circuit breaker\<close>

lemma call_closed_counted_failure:
  assumes "circuit_state m = CLOSED" and "counted_failure cfg f w"
  shows "snd (snd (call cfg clock m f w)) = snd (f w)"
    and "failure_count (fst (snd (call cfg clock m f w))) = failure_count m + 1"
    and "last_failure_time (fst (snd (call cfg clock m f w))) = Some (clock (snd (f w)))"
    and "circuit_state (fst (snd (call cfg clock m f w)))
           = (if failure_count m + 1 \<ge> failure_threshold cfg then OPEN else CLOSED)"
  using assms
  by (auto simp: call_def attempt_reset_def counted_failure_def record_failure_def
      transition_state_def Let_def split: prod.splits outcome.splits)

text \<open>
  A run of counted failures that starts CLOSED and does not exceed the threshold invokes
  every function once, in order, and counts each; it ends OPEN exactly when the count
  reaches the threshold.
\<close>

lemma calls_closed_counted_failures:
  assumes "circuit_state m = CLOSED" and "all_counted_failures cfg fs w"
    and "failure_count m + int (length fs) \<le> failure_threshold cfg"
  shows "snd (calls cfg clock m fs w) = fold (\<lambda>f v. snd (f v)) fs w
       \<and> failure_count (fst (calls cfg clock m fs w)) = failure_count m + int (length fs)
       \<and> (fs \<noteq> [] \<longrightarrow> last_failure_time (fst (calls cfg clock m fs w))
              = Some (clock (fold (\<lambda>f v. snd (f v)) fs w)))
       \<and> (fs \<noteq> [] \<longrightarrow> circuit_state (fst (calls cfg clock m fs w))
              = (if failure_count m + int (length fs) \<ge> failure_threshold cfg
                 then OPEN else CLOSED))"
  using assms
proof (induction fs arbitrary: m w)
  case Nil
  then show ?case by simp
next
  case (Cons f fs)
  obtain r m1 w1 where c: "call cfg clock m f w = (r, m1, w1)"
    by (cases "call cfg clock m f w") auto
  have cf: "counted_failure cfg f w" and rest: "all_counted_failures cfg fs (snd (f w))"
    using Cons.prems(2) by simp_all
  note st = call_closed_counted_failure [OF Cons.prems(1) cf, of clock]
  have w1: "w1 = snd (f w)" using st(1) c by simp
  have fc: "failure_count m1 = failure_count m + 1" using st(2) c by simp
  have lf: "last_failure_time m1 = Some (clock w1)" using st(3) c w1 by simp
  show ?case
  proof (cases "fs = []")
    case True
    then show ?thesis using c w1 fc lf st(4) by simp
  next
    case False
    then have "failure_count m + 1 < failure_threshold cfg"
      using Cons.prems(3) by (cases fs) auto
    then have cl: "circuit_state m1 = CLOSED" using st(4) c by simp
    have le: "failure_count m1 + int (length fs) \<le> failure_threshold cfg"
      using Cons.prems(3) fc by simp
    from Cons.IH [OF cl _ le, of w1] rest w1 False
    show ?thesis using c fc by simp
  qed
qed

lemma call_open_rejects:
  assumes "circuit_state m = OPEN" and "last_failure_time m = Some t"
    and "clock w - t < timeout cfg"
  shows "fst (call cfg clock m g w) = Inl CircuitOpenError"
    and "snd (snd (call cfg clock m g w)) = w"
    and "fst (snd (call cfg clock m g w)) = m\<lparr>total_rejected := total_rejected m + 1\<rparr>"
  using assms
  by (simp_all add: call_def attempt_reset_def should_attempt_reset_def Let_def)

lemma call_open_probe:
  assumes "circuit_state m = OPEN" and "last_failure_time m = Some t"
    and "clock w - t \<ge> timeout cfg"
  shows "circuit_state (attempt_reset cfg m (clock w)) = HALF_OPEN"
    and "snd (snd (call cfg clock m g w)) = snd (g w)"
    and "fst (call cfg clock m g w) = (case fst (g w) of Returns r \<Rightarrow> Inr r | Raises e \<Rightarrow> Inl e)"
  using assms
  by (auto simp: call_def attempt_reset_def should_attempt_reset_def Let_def
      transition_state_def split: prod.splits outcome.splits)

text \<open>
  The breaker that the probing call leaves. The call first moves the breaker to
  HALF_OPEN at the instant of entry, with the success count reset, and records the
  outcome of the one run of the function on that HALF_OPEN breaker: a success is counted,
  and closes the breaker when the success threshold is one; a counted failure re-opens
  the breaker at the instant the function ended; an excluded exception, or one that is
  not an \<open>Exception\<close>, is not recorded, and the breaker stays HALF_OPEN.
\<close>

lemma call_open_probe_breaker:
  assumes "CircuitBreakerConfig_post_init cfg = Inr ()"
    and "circuit_state m = OPEN" and "last_failure_time m = Some t"
    and "clock w - t \<ge> timeout cfg"
  shows "fst (snd (call cfg clock m g w))
           = (case fst (g w) of
                Returns r \<Rightarrow>
                  if success_threshold cfg = 1
                  then m\<lparr>circuit_state := CLOSED, failure_count := 0, success_count := 0,
                         total_calls := total_calls m + 1,
                         total_successes := total_successes m + 1,
                         last_state_change := clock (snd (g w))\<rparr>
                  else m\<lparr>circuit_state := HALF_OPEN, success_count := 1,
                         total_calls := total_calls m + 1,
                         total_successes := total_successes m + 1,
                         last_state_change := clock w\<rparr>
              | Raises e \<Rightarrow>
                  if is_Exception e \<and> \<not> isinstance e (excluded_exceptions cfg)
                  then m\<lparr>circuit_state := OPEN, failure_count := failure_count m + 1,
                         success_count := 0, total_calls := total_calls m + 1,
                         total_failures := total_failures m + 1,
                         last_failure_time := Some (clock (snd (g w))),
                         last_state_change := clock (snd (g w))\<rparr>
                  else m\<lparr>circuit_state := HALF_OPEN, success_count := 0,
                         last_state_change := clock w\<rparr>)"
proof -
  have pos: "1 \<le> success_threshold cfg"
    using assms(1) by (simp add: CircuitBreakerConfig_post_init_def split: if_splits)
  have m1: "attempt_reset cfg m (clock w)
              = m\<lparr>circuit_state := HALF_OPEN, success_count := 0, last_state_change := clock w\<rparr>"
    using assms(2-4)
    by (simp add: attempt_reset_def should_attempt_reset_def transition_state_def Let_def)
  obtain o1 w1 where g: "g w = (o1, w1)" by (cases "g w") auto
  show ?thesis
  proof (cases o1)
    case (Returns r)
    then show ?thesis using pos g
      by (simp add: call_def m1 record_success_def transition_state_def Let_def)
  next
    case (Raises e)
    then show ?thesis using g
      by (simp add: call_def m1 record_failure_def transition_state_def Let_def)
  qed
qed

lemma closed_run_opens:
  fixes clock :: "'w \<Rightarrow> real"
  assumes "CircuitBreakerConfig_post_init cfg = Inr ()"
    and "circuit_state m = CLOSED" and "failure_count m = 0"
    and "int (length fs) = failure_threshold cfg" and "all_counted_failures cfg fs w"
  shows "circuit_state (fst (calls cfg clock m fs w)) = OPEN"
    and "last_failure_time (fst (calls cfg clock m fs w))
           = Some (clock (snd (calls cfg clock m fs w)))"
proof -
  have pos: "0 < failure_threshold cfg"
    using assms(1) by (simp add: CircuitBreakerConfig_post_init_def split: if_splits)
  then have ne: "fs \<noteq> []" using assms(4) by auto
  have le: "failure_count m + int (length fs) \<le> failure_threshold cfg"
    using assms(3,4) by simp
  from calls_closed_counted_failures [OF assms(2) assms(5) le, of clock] ne assms(3,4)
  show "circuit_state (fst (calls cfg clock m fs w)) = OPEN"
    and "last_failure_time (fst (calls cfg clock m fs w))
           = Some (clock (snd (calls cfg clock m fs w)))"
    by simp_all
qed

text \<open>
  C6: for a breaker with a valid configuration. (a) Start CLOSED with no failure counted
  and let \<open>failure_threshold\<close> calls in a row each raise a counted exception: the breaker
  is then OPEN with the instant of the last failure recorded, and the next call, made
  before \<open>timeout\<close> seconds have passed since that instant, raises the circuit-open error
  and leaves the world untouched, whatever function it wraps: the function is not
  invoked; the breaker it leaves is the OPEN breaker with one more rejection counted.
  (b) For an OPEN breaker, a call made once at least \<open>timeout\<close> seconds have
  passed since the last recorded failure moves the breaker to HALF_OPEN and invokes the
  wrapped function exactly once: the world after the call is the world after one run of
  the function, and the call's outcome is that run's outcome. The breaker the call
  leaves is the breaker moved to HALF_OPEN at the instant of entry (success count reset)
  with that one outcome recorded on it: after a success it is HALF_OPEN with one success
  counted, or CLOSED if the success threshold is one; after a counted failure it is
  OPEN again, the failure recorded at the instant the function ended; after an exception
  that is excluded or is not an \<open>Exception\<close> it is HALF_OPEN with nothing counted.
\<close>

theorem C6_opens_after_threshold_then_probes_once:
  fixes clock :: "'w \<Rightarrow> real"
  assumes "CircuitBreakerConfig_post_init cfg = Inr ()"
  shows "(\<forall>m (fs :: ('a, 'w) callable list) w. circuit_state m = CLOSED \<and> failure_count m = 0
            \<and> int (length fs) = failure_threshold cfg \<and> all_counted_failures cfg fs w
          \<longrightarrow> circuit_state (fst (calls cfg clock m fs w)) = OPEN
            \<and> last_failure_time (fst (calls cfg clock m fs w))
                = Some (clock (snd (calls cfg clock m fs w)))
            \<and> (\<forall>g w2. clock w2 - clock (snd (calls cfg clock m fs w)) < timeout cfg
                 \<longrightarrow> fst (call cfg clock (fst (calls cfg clock m fs w)) g w2)
                       = Inl CircuitOpenError
                   \<and> snd (snd (call cfg clock (fst (calls cfg clock m fs w)) g w2)) = w2
                   \<and> fst (snd (call cfg clock (fst (calls cfg clock m fs w)) g w2))
                       = (fst (calls cfg clock m fs w))
                           \<lparr>total_rejected
                              := total_rejected (fst (calls cfg clock m fs w)) + 1\<rparr>
                   \<and> circuit_state
                       (fst (snd (call cfg clock (fst (calls cfg clock m fs w)) g w2)))
                       = OPEN))
       \<and> (\<forall>m t (g :: ('a, 'w) callable) w. circuit_state m = OPEN \<and> last_failure_time m = Some t
            \<and> clock w - t \<ge> timeout cfg
          \<longrightarrow> circuit_state (attempt_reset cfg m (clock w)) = HALF_OPEN
            \<and> snd (snd (call cfg clock m g w)) = snd (g w)
            \<and> fst (call cfg clock m g w)
                = (case fst (g w) of Returns r \<Rightarrow> Inr r | Raises e \<Rightarrow> Inl e)
            \<and> fst (snd (call cfg clock m g w))
                = (case fst (g w) of
                     Returns r \<Rightarrow>
                       if success_threshold cfg = 1
                       then m\<lparr>circuit_state := CLOSED, failure_count := 0, success_count := 0,
                              total_calls := total_calls m + 1,
                              total_successes := total_successes m + 1,
                              last_state_change := clock (snd (g w))\<rparr>
                       else m\<lparr>circuit_state := HALF_OPEN, success_count := 1,
                              total_calls := total_calls m + 1,
                              total_successes := total_successes m + 1,
                              last_state_change := clock w\<rparr>
                   | Raises e \<Rightarrow>
                       if is_Exception e \<and> \<not> isinstance e (excluded_exceptions cfg)
                       then m\<lparr>circuit_state := OPEN, failure_count := failure_count m + 1,
                              success_count := 0, total_calls := total_calls m + 1,
                              total_failures := total_failures m + 1,
                              last_failure_time := Some (clock (snd (g w))),
                              last_state_change := clock (snd (g w))\<rparr>
                       else m\<lparr>circuit_state := HALF_OPEN, success_count := 0,
                              last_state_change := clock w\<rparr>))"
proof -
  have a: "circuit_state (fst (calls cfg clock m fs w)) = OPEN
           \<and> last_failure_time (fst (calls cfg clock m fs w))
                = Some (clock (snd (calls cfg clock m fs w)))
           \<and> (\<forall>g w2. clock w2 - clock (snd (calls cfg clock m fs w)) < timeout cfg
                 \<longrightarrow> fst (call cfg clock (fst (calls cfg clock m fs w)) g w2)
                       = Inl CircuitOpenError
                   \<and> snd (snd (call cfg clock (fst (calls cfg clock m fs w)) g w2)) = w2
                   \<and> fst (snd (call cfg clock (fst (calls cfg clock m fs w)) g w2))
                       = (fst (calls cfg clock m fs w))
                           \<lparr>total_rejected
                              := total_rejected (fst (calls cfg clock m fs w)) + 1\<rparr>
                   \<and> circuit_state
                       (fst (snd (call cfg clock (fst (calls cfg clock m fs w)) g w2)))
                       = OPEN)"
    if h: "circuit_state m = CLOSED \<and> failure_count m = 0
            \<and> int (length fs) = failure_threshold cfg \<and> all_counted_failures cfg fs w"
    for m and fs :: "('a, 'w) callable list" and w
  proof -
    have op: "circuit_state (fst (calls cfg clock m fs w)) = OPEN"
      using closed_run_opens(1) [OF assms, of m fs w clock] h by simp
    have lf: "last_failure_time (fst (calls cfg clock m fs w))
                = Some (clock (snd (calls cfg clock m fs w)))"
      using closed_run_opens(2) [OF assms, of m fs w clock] h by simp
    show ?thesis
      by (simp add: op lf call_open_rejects [where clock = clock and cfg = cfg, OF op lf])
  qed
  have b: "circuit_state (attempt_reset cfg m (clock w)) = HALF_OPEN
            \<and> snd (snd (call cfg clock m g w)) = snd (g w)
            \<and> fst (call cfg clock m g w)
                = (case fst (g w) of Returns r \<Rightarrow> Inr r | Raises e \<Rightarrow> Inl e)
            \<and> fst (snd (call cfg clock m g w))
                = (case fst (g w) of
                     Returns r \<Rightarrow>
                       if success_threshold cfg = 1
                       then m\<lparr>circuit_state := CLOSED, failure_count := 0, success_count := 0,
                              total_calls := total_calls m + 1,
                              total_successes := total_successes m + 1,
                              last_state_change := clock (snd (g w))\<rparr>
                       else m\<lparr>circuit_state := HALF_OPEN, success_count := 1,
                              total_calls := total_calls m + 1,
                              total_successes := total_successes m + 1,
                              last_state_change := clock w\<rparr>
                   | Raises e \<Rightarrow>
                       if is_Exception e \<and> \<not> isinstance e (excluded_exceptions cfg)
                       then m\<lparr>circuit_state := OPEN, failure_count := failure_count m + 1,
                              success_count := 0, total_calls := total_calls m + 1,
                              total_failures := total_failures m + 1,
                              last_failure_time := Some (clock (snd (g w))),
                              last_state_change := clock (snd (g w))\<rparr>
                       else m\<lparr>circuit_state := HALF_OPEN, success_count := 0,
                              last_state_change := clock w\<rparr>)"
    if h: "circuit_state m = OPEN \<and> last_failure_time m = Some t
            \<and> clock w - t \<ge> timeout cfg"
    for m t and g :: "('a, 'w) callable" and w
  proof -
    have h1: "circuit_state m = OPEN" and h2: "last_failure_time m = Some t"
      and h3: "clock w - t \<ge> timeout cfg" using h by simp_all
    note P = call_open_probe [where clock = clock and cfg = cfg and t = t, OF h1 h2 h3]
    note B = call_open_probe_breaker [where clock = clock and cfg = cfg and t = t,
        OF assms h1 h2 h3]
    show ?thesis
      by (intro conjI) (rule P(1), rule P(2), rule P(3), rule B)
  qed
  show ?thesis using a b by blast
qed

theorem C6_opens_after_threshold_then_probes_once_witness:
  "CircuitBreakerConfig_post_init breaker_config = Inr ()
   \<and> calls breaker_config sim_time (CircuitBreakerMetrics_init 0)
        [failing_request, failing_request] \<lparr>sim_time = 0, sim_calls = 0\<rparr>
      = (tripped_metrics, \<lparr>sim_time = 2, sim_calls = 2\<rparr>)
   \<and> circuit_state tripped_metrics = OPEN
   \<and> fst (call breaker_config sim_time tripped_metrics ok_request
             \<lparr>sim_time = 10, sim_calls = 2\<rparr>) = Inl CircuitOpenError
   \<and> snd (snd (call breaker_config sim_time tripped_metrics ok_request
             \<lparr>sim_time = 10, sim_calls = 2\<rparr>)) = \<lparr>sim_time = 10, sim_calls = 2\<rparr>
   \<and> circuit_state (attempt_reset breaker_config tripped_metrics
         (sim_time \<lparr>sim_time = 32, sim_calls = 2\<rparr>)) = HALF_OPEN
   \<and> fst (call breaker_config sim_time tripped_metrics ok_request
             \<lparr>sim_time = 32, sim_calls = 2\<rparr>) = Inr 200
   \<and> snd (snd (call breaker_config sim_time tripped_metrics ok_request
             \<lparr>sim_time = 32, sim_calls = 2\<rparr>)) = \<lparr>sim_time = 33, sim_calls = 3\<rparr>
   \<and> call breaker_config sim_time tripped_metrics ok_request \<lparr>sim_time = 10, sim_calls = 2\<rparr>
       = (Inl CircuitOpenError,
          \<lparr>circuit_state = OPEN, failure_count = 2, success_count = 0,
           total_calls = 2, total_failures = 2, total_successes = 0, total_rejected = 1,
           last_failure_time = Some 2, last_state_change = 2\<rparr>,
          \<lparr>sim_time = 10, sim_calls = 2\<rparr>)
   \<and> call breaker_config sim_time tripped_metrics ok_request \<lparr>sim_time = 32, sim_calls = 2\<rparr>
       = (Inr 200,
          \<lparr>circuit_state = HALF_OPEN, failure_count = 2, success_count = 1,
           total_calls = 3, total_failures = 2, total_successes = 1, total_rejected = 0,
           last_failure_time = Some 2, last_state_change = 32\<rparr>,
          \<lparr>sim_time = 33, sim_calls = 3\<rparr>)
   \<and> call breaker_config sim_time tripped_metrics failing_request
          \<lparr>sim_time = 32, sim_calls = 2\<rparr>
       = (Inl ConnectionError,
          \<lparr>circuit_state = OPEN, failure_count = 3, success_count = 0,
           total_calls = 3, total_failures = 3, total_successes = 0, total_rejected = 0,
           last_failure_time = Some 33, last_state_change = 33\<rparr>,
          \<lparr>sim_time = 33, sim_calls = 3\<rparr>)"
proof -
  let ?w0 = "\<lparr>sim_time = 0, sim_calls = 0\<rparr>"
  let ?fs = "[failing_request, failing_request]"
  have v: "CircuitBreakerConfig_post_init breaker_config = Inr ()"
    by (simp add: CircuitBreakerConfig_post_init_def breaker_config_def)
  have run: "calls breaker_config sim_time (CircuitBreakerMetrics_init 0) ?fs ?w0
      = (tripped_metrics, \<lparr>sim_time = 2, sim_calls = 2\<rparr>)"
    by (simp add: call_def attempt_reset_def record_failure_def transition_state_def
        breaker_config_def CircuitBreakerMetrics_init_def failing_request_def
        ConnectionError_def is_Exception_def isinstance_def Let_def tripped_metrics_def)
  have pre: "circuit_state (CircuitBreakerMetrics_init 0) = CLOSED
      \<and> failure_count (CircuitBreakerMetrics_init 0) = 0
      \<and> int (length ?fs) = failure_threshold breaker_config
      \<and> all_counted_failures breaker_config ?fs ?w0"
    by (simp add: CircuitBreakerMetrics_init_def breaker_config_def counted_failure_def
        failing_request_def ConnectionError_def is_Exception_def isinstance_def)
  note T = C6_opens_after_threshold_then_probes_once [OF v, where clock = sim_time]
  note Ta = T [THEN conjunct1, rule_format, OF pre]
  have op: "circuit_state tripped_metrics = OPEN"
    using Ta [THEN conjunct1] unfolding run by simp
  have early: "sim_time \<lparr>sim_time = 10, sim_calls = 2\<rparr>
                 - sim_time (snd (tripped_metrics, \<lparr>sim_time = 2, sim_calls = 2\<rparr>))
               < timeout breaker_config"
    by (simp add: breaker_config_def)
  note Tr = Ta [THEN conjunct2, THEN conjunct2, rule_format,
      of "\<lparr>sim_time = 10, sim_calls = 2\<rparr>" ok_request, unfolded run, OF early]
  have rej: "call breaker_config sim_time tripped_metrics ok_request
               \<lparr>sim_time = 10, sim_calls = 2\<rparr>
       = (Inl CircuitOpenError,
          \<lparr>circuit_state = OPEN, failure_count = 2, success_count = 0,
           total_calls = 2, total_failures = 2, total_successes = 0, total_rejected = 1,
           last_failure_time = Some 2, last_state_change = 2\<rparr>,
          \<lparr>sim_time = 10, sim_calls = 2\<rparr>)"
    using Tr by (simp add: prod_eq_iff tripped_metrics_def)
  have late: "circuit_state tripped_metrics = OPEN \<and> last_failure_time tripped_metrics = Some 2
      \<and> sim_time \<lparr>sim_time = 32, sim_calls = 2\<rparr> - 2 \<ge> timeout breaker_config"
    by (simp add: tripped_metrics_def breaker_config_def)
  note Tb = T [THEN conjunct2, rule_format, OF late, of ok_request]
  note Tc = T [THEN conjunct2, rule_format, OF late, of failing_request]
  have half: "circuit_state (attempt_reset breaker_config tripped_metrics
         (sim_time \<lparr>sim_time = 32, sim_calls = 2\<rparr>)) = HALF_OPEN"
    using Tb by simp
  have probe: "call breaker_config sim_time tripped_metrics ok_request
                 \<lparr>sim_time = 32, sim_calls = 2\<rparr>
       = (Inr 200,
          \<lparr>circuit_state = HALF_OPEN, failure_count = 2, success_count = 1,
           total_calls = 3, total_failures = 2, total_successes = 1, total_rejected = 0,
           last_failure_time = Some 2, last_state_change = 32\<rparr>,
          \<lparr>sim_time = 33, sim_calls = 3\<rparr>)"
    using Tb by (simp add: prod_eq_iff ok_request_def tripped_metrics_def breaker_config_def)
  have reopen: "call breaker_config sim_time tripped_metrics failing_request
                 \<lparr>sim_time = 32, sim_calls = 2\<rparr>
       = (Inl ConnectionError,
          \<lparr>circuit_state = OPEN, failure_count = 3, success_count = 0,
           total_calls = 3, total_failures = 3, total_successes = 0, total_rejected = 0,
           last_failure_time = Some 33, last_state_change = 33\<rparr>,
          \<lparr>sim_time = 33, sim_calls = 3\<rparr>)"
    using Tc by (simp add: prod_eq_iff failing_request_def tripped_metrics_def
        breaker_config_def ConnectionError_def is_Exception_def isinstance_def)
  show ?thesis
    using v run op half rej probe reopen by simp
qed

section \<open>Properties of the retry policy\<close>












section \<open>Properties of the static credential provider\<close>

text \<open>
  C3, as stated: when the loaded certificate's not-after is earlier than now, \<open>get_svid\<close>
  refuses to return the credential. The provider below holds a certificate that expired
  at instant 100; at instant 200 (and at any other: \<open>get_svid\<close> reads no clock)
  \<open>get_svid\<close> returns that credential.
\<close>

theorem C3_expired_credential_returned_counterexample:
  "initialized expired_provider
   \<and> loaded_svid expired_provider = Some expired_svid
   \<and> not_valid_after_utc expired_svid < 200
   \<and> fst (get_svid expired_provider) = Inr expired_svid"
  by (simp add: get_svid_def expired_provider_def expired_svid_def)

text \<open>
  C3, amended: for every initialized static provider and every instant now, \<open>get_svid\<close>
  returns the loaded credential also when its not-after is earlier than now: an expired
  certificate is never refused by \<open>get_svid\<close> (its expiry branch only logs a warning).
  \<open>get_svid\<close> refuses only a provider that is not initialized.
\<close>

theorem C3_get_svid_returns_loaded_credential:
  assumes "initialized p" and "loaded_svid p = Some s" and "not_valid_after_utc s < now"
  shows "fst (get_svid p) = Inr s
       \<and> fst (get_svid (p\<lparr>initialized := False\<rparr>))
           = Inl (Exn [''IdentityError'', ''Exception'', ''BaseException'']
               ''Static mTLS provider not initialized. Call initialize() before using the provider.'')"
  using assms by (simp add: get_svid_def IdentityError_def)

theorem C3_get_svid_returns_loaded_credential_witness:
  "initialized expired_provider \<and> loaded_svid expired_provider = Some expired_svid
   \<and> not_valid_after_utc expired_svid < 101
   \<and> fst (get_svid expired_provider) = Inr expired_svid
   \<and> fst (get_svid (expired_provider\<lparr>initialized := False\<rparr>))
       = Inl (Exn [''IdentityError'', ''Exception'', ''BaseException'']
           ''Static mTLS provider not initialized. Call initialize() before using the provider.'')"
proof -
  have a: "initialized expired_provider" by (simp add: expired_provider_def)
  have b: "loaded_svid expired_provider = Some expired_svid"
    by (simp add: expired_provider_def)
  have c: "not_valid_after_utc expired_svid < 101" by (simp add: expired_svid_def)
  show ?thesis
    using C3_get_svid_returns_loaded_credential [OF a b c] a b c by simp
qed

text \<open>
  The health check of an initialized provider whose files are present passes whatever
  the certificate's not-after: its expiry test compares the value with itself.
\<close>

lemma health_check_ignores_expiry:
  assumes "initialized p" and "loaded_svid p = Some s"
  shows "fst (health_check p False) = True"
  using assms by (simp add: health_check_def get_svid_def)

section \<open>Properties of peer patterns\<close>

lemma with_peer_patterns_all_match:
  assumes "list_all (\<lambda>p. fnm (caller_id c) p) patterns"
  shows "with_peer_patterns fnm patterns func (Some c) w = func (Some c) w"
  using assms
  by (induction patterns) (simp_all add: with_peer_patterns_def requires_peer_def)

lemma with_peer_patterns_mismatch:
  assumes "\<not> list_all (\<lambda>p. fnm (caller_id c) p) patterns"
  shows "\<exists>msg. with_peer_patterns fnm patterns func (Some c) w
           = (Raises (PermissionError msg), w)"
  using assms
proof (induction patterns)
  case Nil
  then show ?case by simp
next
  case (Cons p ps)
  show ?case
  proof (cases "fnm (caller_id c) p")
    case True
    then have "\<not> list_all (\<lambda>p. fnm (caller_id c) p) ps" using Cons.prems by simp
    from Cons.IH [OF this] True show ?thesis
      by (simp add: with_peer_patterns_def requires_peer_def)
  next
    case False
    then have "with_peer_patterns fnm (p # ps) func (Some c) w
        = (Raises (PermissionError (''Caller '' @ caller_id c
             @ '' does not match required peer pattern '' @ p)), w)"
      by (simp add: with_peer_patterns_def requires_peer_def)
    then show ?thesis by (rule exI)
  qed
qed

text \<open>
  C8, as stated: a caller is eligible if and only if at least one of the listed patterns
  matches. The caller below matches the first of two patterns and not the second: the
  call is refused with \<open>PermissionError\<close> and the handler does not run (the world is
  unchanged). And with no pattern listed, where no pattern matches, the handler runs.
\<close>

theorem C8_one_matching_pattern_not_enough_counterexample:
  "fnmatch (caller_id agent_context) ''spiffe://a.io/*''
   \<and> \<not> fnmatch (caller_id agent_context) ''spiffe://b.io/*''
   \<and> with_peer_patterns fnmatch [''spiffe://a.io/*'', ''spiffe://b.io/*''] search_handler
        (Some agent_context) \<lparr>sim_time = 0, sim_calls = 0\<rparr>
      = (Raises (PermissionError
           ''Caller spiffe://a.io/agent/x does not match required peer pattern spiffe://b.io/*''),
         \<lparr>sim_time = 0, sim_calls = 0\<rparr>)
   \<and> with_peer_patterns fnmatch [] search_handler
        (Some agent_context) \<lparr>sim_time = 0, sim_calls = 0\<rparr>
      = (Returns 200, \<lparr>sim_time = 1, sim_calls = 1\<rparr>)"
  by (simp add: with_peer_patterns_def requires_peer_def fnmatch_def agent_context_def
      search_handler_def ok_request_def)

text \<open>
  C8, amended: for every capability declared with a list of peer patterns (one stacked
  \<open>requires_peer\<close> per pattern) and every caller identifier of the current request
  context, the caller is eligible to invoke the capability if and only if every listed
  pattern matches the caller identifier (conjunction over the patterns): when all match,
  the call is the handler's own call; when one does not, \<open>PermissionError\<close> is raised
  and the handler is not invoked. With a single pattern, eligibility is that pattern
  matching.
\<close>

theorem C8_eligible_iff_all_patterns_match:
  "(list_all (\<lambda>p. fnm (caller_id c) p) patterns \<longrightarrow>
      with_peer_patterns fnm patterns func (Some c) w = func (Some c) w)
   \<and> (\<not> list_all (\<lambda>p. fnm (caller_id c) p) patterns \<longrightarrow>
      (\<exists>msg. with_peer_patterns fnm patterns func (Some c) w
         = (Raises (PermissionError msg), w)))
   \<and> with_peer_patterns fnm [p] func (Some c) w
       = (if fnm (caller_id c) p then func (Some c) w
          else (Raises (PermissionError (''Caller '' @ caller_id c
                  @ '' does not match required peer pattern '' @ p)), w))"
  using with_peer_patterns_all_match [of fnm c patterns func w]
    with_peer_patterns_mismatch [of fnm c patterns func w]
  by (simp add: with_peer_patterns_def requires_peer_def)

theorem C8_eligible_iff_all_patterns_match_witness:
  "list_all (\<lambda>p. fnmatch (caller_id agent_context) p) [''spiffe://a.io/*'', ''spiffe://*/agent/?'']
   \<and> with_peer_patterns fnmatch [''spiffe://a.io/*'', ''spiffe://*/agent/?''] search_handler
        (Some agent_context) \<lparr>sim_time = 0, sim_calls = 0\<rparr>
      = (Returns 200, \<lparr>sim_time = 1, sim_calls = 1\<rparr>)
   \<and> \<not> list_all (\<lambda>p. fnmatch (caller_id agent_context) p) [''spiffe://a.io/*'', ''spiffe://b.io/*'']
   \<and> (\<exists>msg. with_peer_patterns fnmatch [''spiffe://a.io/*'', ''spiffe://b.io/*''] search_handler
        (Some agent_context) \<lparr>sim_time = 0, sim_calls = 0\<rparr>
      = (Raises (PermissionError msg), \<lparr>sim_time = 0, sim_calls = 0\<rparr>))"
proof -
  let ?w0 = "\<lparr>sim_time = 0, sim_calls = 0\<rparr>"
  have a: "list_all (\<lambda>p. fnmatch (caller_id agent_context) p)
      [''spiffe://a.io/*'', ''spiffe://*/agent/?'']"
    by (simp add: fnmatch_def agent_context_def)
  have b: "\<not> list_all (\<lambda>p. fnmatch (caller_id agent_context) p)
      [''spiffe://a.io/*'', ''spiffe://b.io/*'']"
    by (simp add: fnmatch_def agent_context_def)
  have h: "search_handler (Some agent_context) ?w0 = (Returns 200, \<lparr>sim_time = 1, sim_calls = 1\<rparr>)"
    by (simp add: search_handler_def ok_request_def)
  note T1 = C8_eligible_iff_all_patterns_match [of fnmatch agent_context
      "[''spiffe://a.io/*'', ''spiffe://*/agent/?'']" search_handler ?w0,
      THEN conjunct1, rule_format, OF a]
  note T2 = C8_eligible_iff_all_patterns_match [of fnmatch agent_context
      "[''spiffe://a.io/*'', ''spiffe://b.io/*'']" search_handler ?w0,
      THEN conjunct2, THEN conjunct1, rule_format, OF b]
  show ?thesis using a b T1 T2 unfolding h by (intro conjI)
qed

section \<open>Properties of the authorization provider\<close>

lemma map_of_od_delete: "map_of (od_delete k xs) k = None"
  by (induction xs) (auto simp: od_delete_def)

lemma cache_get_miss_leaves_no_entry:
  assumes "fst (cache_get lib c caller resource action context now) = None"
  shows "map_of (entries (snd (cache_get lib c caller resource action context now)))
           (make_key lib caller resource action context) = None"
  using assms
  by (auto simp: cache_get_def Let_def map_of_od_delete split: option.splits if_splits)


lemma default_decision_deny:
  assumes "default_deny p"
  shows "fst (default_decision p caller resource action err uuid)
           = \<lparr>allowed = False,
              reason = ''OPA unavailable, default deny policy applied: '' @ err,
              policy_id = Some ''default-deny'', audit_id = uuid\<rparr>"
  using assms by (simp add: default_decision_def new_AuthzDecision_def)

lemma default_decision_log_no_audit:
  "\<not> list_ex is_audit_entry (snd (default_decision p caller resource action err uuid))"
  by (simp add: default_decision_def is_audit_entry_def)

text \<open>
  The default path of \<open>check\<close>: a cache miss followed by a breaker call that raised an
  \<open>Exception\<close>, the breaker's own \<open>CircuitBreakerError\<close> included.
\<close>

lemma check_default_path:
  assumes "fst (cache_get lib (decision_cache p) caller resource action context (clock w)) = None"
    and "fst (opa_call (circuit_breaker p) clock
           (query_opa engine (build_input caller resource action context (clock w)) uuid) w)
         = Inl e"
    and "is_Exception e"
  shows "fst (check lib clock engine p caller resource action context uuid w)
           = Inr (fst (default_decision p caller resource action (exn_str e) uuid))"
    and "decision_cache (fst (snd (check lib clock engine p caller resource action context uuid w)))
           = snd (cache_get lib (decision_cache p) caller resource action context (clock w))"
    and "\<not> list_ex is_audit_entry
           (fst (snd (snd (check lib clock engine p caller resource action context uuid w))))"
proof -
  obtain c1 where g: "cache_get lib (decision_cache p) caller resource action context (clock w)
      = (None, c1)"
    using assms(1)
    by (cases "cache_get lib (decision_cache p) caller resource action context (clock w)") simp
  obtain cb' w' where o: "opa_call (circuit_breaker p) clock
      (query_opa engine (build_input caller resource action context (clock w)) uuid) w
      = (Inl e, cb', w')"
    using assms(2)
    by (cases "opa_call (circuit_breaker p) clock
      (query_opa engine (build_input caller resource action context (clock w)) uuid) w") auto
  obtain d l where dd: "default_decision p caller resource action (exn_str e) uuid = (d, l)"
    by (cases "default_decision p caller resource action (exn_str e) uuid") auto
  have nl: "\<not> list_ex is_audit_entry l"
    using default_decision_log_no_audit [of p caller resource action "exn_str e" uuid] dd
    by simp
  have c: "check lib clock engine p caller resource action context uuid w
      = (Inr d, p\<lparr>decision_cache := c1, circuit_breaker := cb'\<rparr>,
         (LOG_ERROR, (if isinstance e [''CircuitBreakerError'']
                      then ''Circuit breaker open, applying default policy: ''
                      else ''OPA query failed: '') @ exn_str e) # l, w')"
    using assms(3) by (simp add: check_def g o dd Let_def)
  show "fst (check lib clock engine p caller resource action context uuid w)
           = Inr (fst (default_decision p caller resource action (exn_str e) uuid))"
    by (simp add: c dd)
  show "decision_cache (fst (snd (check lib clock engine p caller resource action context uuid w)))
           = snd (cache_get lib (decision_cache p) caller resource action context (clock w))"
    by (simp add: c g)
  show "\<not> list_ex is_audit_entry
           (fst (snd (snd (check lib clock engine p caller resource action context uuid w))))"
    using nl by (simp add: c is_audit_entry_def)
qed

text \<open>An OPEN breaker within its recovery timeout raises without calling the function.\<close>

lemma opa_call_open:
  assumes "cb_state cb = OPEN" and "cb_last_failure_time cb = Some t"
    and "\<not> clock w - t > cb_recovery_timeout cb"
  shows "opa_call cb clock func w = (Inl CircuitBreakerError, cb, w)"
  using assms by (simp add: opa_call_def)




text \<open>
  C4, as stated: the denial's reason contains the string "policy engine unavailable".
  With the breaker open the provider denies with the reason
  "OPA unavailable, default deny policy applied: Circuit breaker is OPEN", and with the
  engine answering 503 with the same prefix followed by the HTTP error: neither
  contains that string.
\<close>

theorem C4_reason_text_counterexample:
  "default_deny open_provider
   \<and> fst (check plain_lib sim_time engine_down open_provider ''spiffe://a.io/agent/x''
        ''spiffe://a.io/agent/search'' ''search'' None ''id-1'' \<lparr>sim_time = 10, sim_calls = 0\<rparr>)
      = Inr \<lparr>allowed = False,
             reason = ''OPA unavailable, default deny policy applied: Circuit breaker is OPEN'',
             policy_id = Some ''default-deny'', audit_id = ''id-1''\<rparr>
   \<and> \<not> str_contains ''policy engine unavailable''
         ''OPA unavailable, default deny policy applied: Circuit breaker is OPEN''
   \<and> fst (check plain_lib sim_time engine_down deny_provider ''spiffe://a.io/agent/x''
        ''spiffe://a.io/agent/search'' ''search'' None ''id-2'' \<lparr>sim_time = 10, sim_calls = 0\<rparr>)
      = Inr \<lparr>allowed = False,
             reason = ''OPA unavailable, default deny policy applied: Server error 503 Service Unavailable'',
             policy_id = Some ''default-deny'', audit_id = ''id-2''\<rparr>
   \<and> \<not> str_contains ''policy engine unavailable''
         ''OPA unavailable, default deny policy applied: Server error 503 Service Unavailable''"
proof -
  have a: "default_deny open_provider"
    by (simp add: open_provider_def deny_provider_def)
  have b: "fst (check plain_lib sim_time engine_down open_provider ''spiffe://a.io/agent/x''
        ''spiffe://a.io/agent/search'' ''search'' None ''id-1'' \<lparr>sim_time = 10, sim_calls = 0\<rparr>)
      = Inr \<lparr>allowed = False,
             reason = ''OPA unavailable, default deny policy applied: Circuit breaker is OPEN'',
             policy_id = Some ''default-deny'', audit_id = ''id-1''\<rparr>"
    by (simp add: check_def cache_get_def make_key_def plain_lib_def open_provider_def
        deny_provider_def fresh_breaker_def opa_call_def CircuitBreakerError_def
        isinstance_def default_decision_def new_AuthzDecision_def Let_def)
  have c: "\<not> str_contains ''policy engine unavailable''
         ''OPA unavailable, default deny policy applied: Circuit breaker is OPEN''"
    by simp
  have d: "fst (check plain_lib sim_time engine_down deny_provider ''spiffe://a.io/agent/x''
        ''spiffe://a.io/agent/search'' ''search'' None ''id-2'' \<lparr>sim_time = 10, sim_calls = 0\<rparr>)
      = Inr \<lparr>allowed = False,
             reason = ''OPA unavailable, default deny policy applied: Server error 503 Service Unavailable'',
             policy_id = Some ''default-deny'', audit_id = ''id-2''\<rparr>"
    by (simp add: check_def cache_get_def make_key_def plain_lib_def
        deny_provider_def fresh_breaker_def opa_call_def query_opa_def engine_down_def
        HTTPStatusError_def is_Exception_def
        isinstance_def default_decision_def new_AuthzDecision_def Let_def)
  have e: "\<not> str_contains ''policy engine unavailable''
         ''OPA unavailable, default deny policy applied: Server error 503 Service Unavailable''"
    by simp
  show ?thesis using a b c d e by (intro conjI)
qed

text \<open>
  C4, amended: for every authorization check that misses the cache and in which the
  policy-engine query raises an exception or the breaker raises its circuit-open error
  (both are an \<open>Exception\<close> raised by the breaker's \<open>call\<close>), and the provider is
  configured with default deny, \<open>check\<close> returns a decision with allowed = false,
  policy id "default-deny", and the reason
  "OPA unavailable, default deny policy applied: " followed by the text of the error.
\<close>

theorem C4_default_deny_on_engine_failure:
  assumes "default_deny p"
    and "fst (cache_get lib (decision_cache p) caller resource action context (clock w)) = None"
    and "fst (opa_call (circuit_breaker p) clock
           (query_opa engine (build_input caller resource action context (clock w)) uuid) w)
         = Inl e"
    and "is_Exception e"
  shows "fst (check lib clock engine p caller resource action context uuid w)
           = Inr \<lparr>allowed = False,
                  reason = ''OPA unavailable, default deny policy applied: '' @ exn_str e,
                  policy_id = Some ''default-deny'', audit_id = uuid\<rparr>"
  using check_default_path(1) [OF assms(2,3,4)] default_decision_deny [OF assms(1)]
  by simp

theorem C4_default_deny_on_engine_failure_witness:
  "default_deny deny_provider
   \<and> is_Exception HTTPStatusError
   \<and> fst (opa_call (circuit_breaker deny_provider) sim_time
        (query_opa engine_down (build_input ''spiffe://a.io/agent/x'' ''spiffe://a.io/agent/search''
            ''search'' None (sim_time \<lparr>sim_time = 10, sim_calls = 0\<rparr>)) ''id-2'')
        \<lparr>sim_time = 10, sim_calls = 0\<rparr>) = Inl HTTPStatusError
   \<and> fst (check plain_lib sim_time engine_down deny_provider ''spiffe://a.io/agent/x''
        ''spiffe://a.io/agent/search'' ''search'' None ''id-2'' \<lparr>sim_time = 10, sim_calls = 0\<rparr>)
      = Inr \<lparr>allowed = False,
             reason = ''OPA unavailable, default deny policy applied: '' @ exn_str HTTPStatusError,
             policy_id = Some ''default-deny'', audit_id = ''id-2''\<rparr>
   \<and> default_deny open_provider
   \<and> is_Exception CircuitBreakerError
   \<and> fst (opa_call (circuit_breaker open_provider) sim_time
        (query_opa engine_allows (build_input ''spiffe://a.io/agent/x'' ''spiffe://a.io/agent/search''
            ''search'' None (sim_time \<lparr>sim_time = 10, sim_calls = 0\<rparr>)) ''id-1'')
        \<lparr>sim_time = 10, sim_calls = 0\<rparr>) = Inl CircuitBreakerError
   \<and> fst (check plain_lib sim_time engine_allows open_provider ''spiffe://a.io/agent/x''
        ''spiffe://a.io/agent/search'' ''search'' None ''id-1'' \<lparr>sim_time = 10, sim_calls = 0\<rparr>)
      = Inr \<lparr>allowed = False,
             reason = ''OPA unavailable, default deny policy applied: '' @ exn_str CircuitBreakerError,
             policy_id = Some ''default-deny'', audit_id = ''id-1''\<rparr>"
proof -
  let ?w = "\<lparr>sim_time = 10, sim_calls = 0\<rparr>"
  let ?c = "''spiffe://a.io/agent/x''" and ?r = "''spiffe://a.io/agent/search''"
  have d1: "default_deny deny_provider" by (simp add: deny_provider_def)
  have d2: "default_deny open_provider" by (simp add: open_provider_def deny_provider_def)
  have m1: "fst (cache_get plain_lib (decision_cache deny_provider) ?c ?r ''search'' None
      (sim_time ?w)) = None"
    by (simp add: cache_get_def deny_provider_def Let_def)
  have m2: "fst (cache_get plain_lib (decision_cache open_provider) ?c ?r ''search'' None
      (sim_time ?w)) = None"
    by (simp add: cache_get_def open_provider_def deny_provider_def Let_def)
  have e1: "is_Exception HTTPStatusError"
    by (simp add: HTTPStatusError_def is_Exception_def isinstance_def)
  have e2: "is_Exception CircuitBreakerError"
    by (simp add: CircuitBreakerError_def is_Exception_def isinstance_def)
  have f1: "fst (opa_call (circuit_breaker deny_provider) sim_time
        (query_opa engine_down (build_input ?c ?r ''search'' None (sim_time ?w)) ''id-2'') ?w)
      = Inl HTTPStatusError"
    using e1
    by (simp add: opa_call_def deny_provider_def fresh_breaker_def query_opa_def
        engine_down_def Let_def)
  have f2: "fst (opa_call (circuit_breaker open_provider) sim_time
        (query_opa engine_allows (build_input ?c ?r ''search'' None (sim_time ?w)) ''id-1'') ?w)
      = Inl CircuitBreakerError"
    by (simp add: opa_call_def open_provider_def deny_provider_def fresh_breaker_def Let_def)
  note T1 = C4_default_deny_on_engine_failure [OF d1 m1 f1 e1]
  note T2 = C4_default_deny_on_engine_failure [OF d2 m2 f2 e2]
  show ?thesis using d1 d2 e1 e2 f1 f2 T1 T2 by (intro conjI)
qed



text \<open>
  The other two paths of \<open>check\<close>, for comparison. When the breaker call returns a
  decision, the call logs exactly the audit entry of that decision and, with room for at
  least one entry, stores the decision under the request's key; a cache hit logs no
  audit entry.
\<close>

lemma map_of_append_absent:
  assumes "map_of xs k = None"
  shows "map_of (xs @ [(k, v)]) k = Some v"
  using assms by (simp add: map_add_def)

lemma od_delete_absent:
  assumes "map_of xs k = None"
  shows "od_delete k xs = xs"
  using assms by (induction xs) (auto simp: od_delete_def split: if_splits)

lemma map_of_tl_append_absent:
  assumes "map_of xs k = None" and "xs \<noteq> []"
  shows "map_of (tl (xs @ [(k, v)])) k = Some v"
proof -
  from assms(2) obtain y ys where xs: "xs = y # ys" by (cases xs) auto
  then have "map_of ys k = None" using assms(1) by (cases y) (auto split: if_splits)
  then show ?thesis using xs by (simp add: map_add_def)
qed

lemma cache_put_stores:
  assumes "map_of (entries c) (make_key lib caller resource action context) = None"
    and "1 \<le> max_size c"
  shows "map_of (entries (cache_put lib c caller resource action context d now))
           (make_key lib caller resource action context) = Some (d, now)"
proof -
  let ?k = "make_key lib caller resource action context"
  have s: "od_set ?k (d, now) (entries c) = entries c @ [(?k, (d, now))]"
    using assms(1) by (simp add: od_set_def)
  have m: "od_move_to_end ?k (entries c @ [(?k, (d, now))]) = entries c @ [(?k, (d, now))]"
    using map_of_append_absent [OF assms(1), of "(d, now)"] od_delete_absent [OF assms(1)]
    by (simp add: od_move_to_end_def od_delete_def)
  show ?thesis
  proof (cases "int (length (entries c @ [(?k, (d, now))])) > max_size c")
    case True
    then have "entries c \<noteq> []" using assms(2) by auto
    from map_of_tl_append_absent [OF assms(1) this, of "(d, now)"] True
    show ?thesis by (simp add: cache_put_def s m Let_def)
  next
    case False
    then show ?thesis
      using map_of_append_absent [OF assms(1), of "(d, now)"]
      by (simp add: cache_put_def s m Let_def)
  qed
qed

lemma check_engine_decision_cached_and_audited:
  assumes "fst (cache_get lib (decision_cache p) caller resource action context (clock w)) = None"
    and "opa_call (circuit_breaker p) clock
           (query_opa engine (build_input caller resource action context (clock w)) uuid) w
         = (Inr d, cb', w')"
    and "1 \<le> max_size (decision_cache p)"
  shows "fst (check lib clock engine p caller resource action context uuid w) = Inr d"
    and "fst (snd (snd (check lib clock engine p caller resource action context uuid w)))
           = audit_log caller resource action d"
    and "list_ex is_audit_entry (audit_log caller resource action d)"
    and "map_of (entries (decision_cache
            (fst (snd (check lib clock engine p caller resource action context uuid w)))))
           (make_key lib caller resource action context) = Some (d, clock w')"
proof -
  obtain c1 where g: "cache_get lib (decision_cache p) caller resource action context (clock w)
      = (None, c1)"
    using assms(1)
    by (cases "cache_get lib (decision_cache p) caller resource action context (clock w)") simp
  have k: "map_of (entries c1) (make_key lib caller resource action context) = None"
    using cache_get_miss_leaves_no_entry [OF assms(1)] g by simp
  have ms: "1 \<le> max_size c1"
    using g assms(3)
    by (auto simp: cache_get_def Let_def split: option.splits if_splits prod.splits)
  have c: "check lib clock engine p caller resource action context uuid w
      = (Inr d, p\<lparr>decision_cache := cache_put lib c1 caller resource action context d (clock w'),
                   circuit_breaker := cb'\<rparr>,
         audit_log caller resource action d, w')"
    by (simp add: check_def g assms(2) Let_def)
  show "fst (check lib clock engine p caller resource action context uuid w) = Inr d"
    by (simp add: c)
  show "fst (snd (snd (check lib clock engine p caller resource action context uuid w)))
           = audit_log caller resource action d"
    by (simp add: c)
  show "list_ex is_audit_entry (audit_log caller resource action d)"
    by (simp add: audit_log_def is_audit_entry_def)
  show "map_of (entries (decision_cache
            (fst (snd (check lib clock engine p caller resource action context uuid w)))))
           (make_key lib caller resource action context) = Some (d, clock w')"
    using cache_put_stores [OF k ms] by (simp add: c)
qed

lemma check_cache_hit_not_audited:
  assumes "fst (cache_get lib (decision_cache p) caller resource action context (clock w)) = Some d"
  shows "fst (check lib clock engine p caller resource action context uuid w) = Inr d"
    and "\<not> list_ex is_audit_entry
           (fst (snd (snd (check lib clock engine p caller resource action context uuid w))))"
    and "snd (snd (snd (check lib clock engine p caller resource action context uuid w))) = w"
  using assms
  by (auto simp: check_def is_audit_entry_def split: prod.splits option.splits)

section \<open>Properties of the secure channel\<close>

text \<open>
  The response of \<open>request\<close> does not depend on the peer identifier the channel was
  configured with, beyond the trust domain whose bundle is fetched.
\<close>

lemma request_ignores_expected_peer:
  assumes "extract_trust_domain peer' = extract_trust_domain (peer_spiffe_id ch)"
  shows "fst (request http idp draws (ch\<lparr>peer_spiffe_id := peer'\<rparr>) method url w)
           = fst (request http idp draws ch method url w)"
    and "snd (snd (request http idp draws (ch\<lparr>peer_spiffe_id := peer'\<rparr>) method url w))
           = snd (snd (request http idp draws ch method url w))"
  using assms
  by (auto simp: request_def ensure_client_def create_ssl_context_def Let_def
      split: option.splits sum.splits prod.splits outcome.splits)

text \<open>
  C1, evaluated where the code departs from it: a channel configured for
  \<open>spiffe://example.com/agent/search\<close> talks to a server whose certificate (trusted
  chain, same trust domain) carries the SAN URI \<open>spiffe://example.com/agent/other\<close>.
  \<open>_verify_peer_callback\<close> would raise peer-verification-failed on that certificate,
  but \<open>request\<close> never calls it: the request is sent and its response returned.
\<close>

theorem C1_request_succeeds_for_other_peer:
  "extract_spiffe_id_from_cert (presented_certificate other_agent_server)
     = Some ''spiffe://example.com/agent/other''
   \<and> verify_peer_callback (peer_spiffe_id search_channel)
        (presented_certificate other_agent_server)
     = Inl (PeerVerificationError ''spiffe://example.com/agent/search''
              (Some ''spiffe://example.com/agent/other''))
   \<and> fst (request tls_client working_identity falling_draws search_channel
             ''GET'' ''https://search.example.com/api'' other_agent_server) = Inr 200
   \<and> requests_served (snd (snd (request tls_client working_identity falling_draws
             search_channel ''GET'' ''https://search.example.com/api'' other_agent_server))) = 1"
  by (simp add: extract_spiffe_id_from_cert_def verify_peer_callback_def request_def
      ensure_client_def create_ssl_context_def extract_trust_domain_def tls_client_def
      other_agent_server_def search_channel_def working_identity_def Let_def)

end
